theory Spec2Isabelle
  imports Complex_Main
begin

section \<open>Shared data: constants, session configuration, exceptions, log\<close>

text \<open>
  The constants imported from \<^verbatim>\<open>kiauto.misc\<close> are not part of the sources
  at hand.  They are collected in a record that every operation takes as its first
  argument, so that each result holds for whatever values the constants have.
\<close>

record misc =
  KICAD_VERSION_5_99 :: int
  PCBNEW_ERROR :: int
  WRONG_LAYER_NAME :: int

text \<open>
  The fields of the session object \<^verbatim>\<open>cfg\<close> that the functions below read or
  write.  A modification time is a Python float; it is only compared, never computed
  with, and is modelled as a real number.
\<close>

record cfg =
  pcbnew :: string
  input_file :: string
  output_file :: string
  kicad_version :: int
  pcb_size :: int
  pcb_date :: real
  save :: bool
  time_out_scale :: real
  fill_zones :: bool
  layers :: "string list"
  errs :: "string list"
  wrns :: "string list"
  rec_width :: int
  rec_height :: int
  print_dlg_name :: string
  select_a_filename :: string

text \<open>The command-line arguments read after parsing.\<close>

record args =
  command :: string
  wait_start :: nat
  ignore_unconnected :: bool

datatype exn =
    FileNotFoundError
  | IsADirectoryError
  | TypeError
  | IndexError
  | AttributeError
  | RuntimeError
  | ValueError string
  | CalledProcessError
  | SystemExit int

datatype log = Debug string | Info string | Warning string | Error string

section \<open>The file system\<close>

text \<open>
  A path names a regular file (its bytes and modification time), a directory (its
  reported size and modification time), or nothing.
\<close>

datatype node = File (data: string) (mtime: real) | Dir (dsize: nat) (mtime: real)

type_synonym fs = "string \<Rightarrow> node option"

definition os_path_getmtime :: "fs \<Rightarrow> string \<Rightarrow> exn + real" where
  "os_path_getmtime fs p = (case fs p of None \<Rightarrow> Inl FileNotFoundError | Some n \<Rightarrow> Inr (mtime n))"

definition os_path_getsize :: "fs \<Rightarrow> string \<Rightarrow> exn + int" where
  "os_path_getsize fs p =
     (case fs p of
        None \<Rightarrow> Inl FileNotFoundError
      | Some (File d m) \<Rightarrow> Inr (int (length d))
      | Some (Dir s m) \<Rightarrow> Inr (int s))"

definition os_path_isfile :: "fs \<Rightarrow> string \<Rightarrow> bool" where
  "os_path_isfile fs p = (case fs p of Some (File d m) \<Rightarrow> True | _ \<Rightarrow> False)"

definition os_remove :: "fs \<Rightarrow> string \<Rightarrow> exn + fs" where
  "os_remove fs p =
     (case fs p of
        None \<Rightarrow> Inl FileNotFoundError
      | Some (Dir s m) \<Rightarrow> Inl IsADirectoryError
      | Some (File d m) \<Rightarrow> Inr (fs(p := None)))"

definition os_rename :: "fs \<Rightarrow> string \<Rightarrow> string \<Rightarrow> exn + fs" where
  "os_rename fs src dst =
     (case fs src of
        None \<Rightarrow> Inl FileNotFoundError
      | Some n \<Rightarrow>
          (case fs dst of
             Some (Dir s m) \<Rightarrow> Inl IsADirectoryError
           | _ \<Rightarrow> Inr ((fs(src := None))(dst := Some n))))"

section \<open>Remembering and restoring the design file\<close>

text \<open>
  \<^verbatim>\<open>restore_pcb\<close>, the part run when the modification time has changed.  The
  result is the exception raised (if any), the file system left behind and the messages
  logged.
\<close>

definition restore_changed :: "cfg \<Rightarrow> string \<Rightarrow> fs \<Rightarrow> exn option \<times> fs \<times> log list" where
  "restore_changed c bkp fs =
     (if os_path_isfile fs bkp then
        (case os_path_getsize fs bkp of
           Inl e \<Rightarrow> (Some e, fs, [Debug ''Current pcb date, trying to restore it''])
         | Inr bkp_size \<Rightarrow>
             if bkp_size = pcb_size c then
               (case os_remove fs (input_file c) of
                  Inl e \<Rightarrow> (Some e, fs, [Debug ''Current pcb date, trying to restore it''])
                | Inr fs1 \<Rightarrow>
                    (case os_rename fs1 bkp (input_file c) of
                       Inl e \<Rightarrow> (Some e, fs1, [Debug ''Current pcb date, trying to restore it''])
                     | Inr fs2 \<Rightarrow>
                         (None, fs2, [Debug ''Current pcb date, trying to restore it'',
                                      Debug ''Moved''])))
             else (None, fs, [Debug ''Current pcb date, trying to restore it'',
                              Error ''Corrupted back-up file!'']))
      else (None, fs, [Debug ''Current pcb date, trying to restore it'',
                       Error ''No back-up available!'']))"

definition restore_pcb :: "misc \<Rightarrow> cfg \<Rightarrow> fs \<Rightarrow> exn option \<times> fs \<times> log list" where
  "restore_pcb K c fs =
     (if input_file c \<noteq> [] \<and> pcb_size c \<ge> 0 \<and> pcb_date c \<ge> 0 then
        (case os_path_getmtime fs (input_file c) of
           Inl e \<Rightarrow> (Some e, fs, [])
         | Inr cur_date \<Rightarrow>
             (let bkp = input_file c @ ''-bak'';
                  r = (if cur_date \<noteq> pcb_date c then restore_changed c bkp fs else (None, fs, []))
              in case r of
                   (Some e, fs1, lg) \<Rightarrow> (Some e, fs1, lg)
                 | (None, fs1, lg) \<Rightarrow>
                     if kicad_version c \<ge> KICAD_VERSION_5_99 K \<and> os_path_isfile fs1 bkp then
                       (case os_remove fs1 bkp of
                          Inl e \<Rightarrow> (Some e, fs1, lg)
                        | Inr fs2 \<Rightarrow> (None, fs2, lg))
                     else (None, fs1, lg)))
      else (None, fs, []))"

text \<open>
  \<^verbatim>\<open>shutil.copy2\<close> copies the bytes and the modification time of a regular file.
  When the destination is a directory the copy is created inside it, under the base name
  of the source.
\<close>

definition basename :: "string \<Rightarrow> string" where
  "basename p = rev (takeWhile (\<lambda>ch. ch \<noteq> CHR ''/'') (rev p))"

definition shutil_copy2 :: "fs \<Rightarrow> string \<Rightarrow> string \<Rightarrow> exn + fs" where
  "shutil_copy2 fs src dst =
     (case fs src of
        None \<Rightarrow> Inl FileNotFoundError
      | Some (Dir s m) \<Rightarrow> Inl IsADirectoryError
      | Some (File d m) \<Rightarrow>
          (case fs dst of
             Some (Dir s' m') \<Rightarrow> Inr (fs(dst @ ''/'' @ basename src := Some (File d m)))
           | _ \<Rightarrow> Inr (fs(dst := Some (File d m)))))"

text \<open>
  \<^verbatim>\<open>memorize_pcb\<close> records size and date in the session and, for the newer tool,
  makes the back-up itself.  Registering \<^verbatim>\<open>restore_pcb\<close> to run at exit has no
  effect on the values returned here.
\<close>

definition memorize_pcb :: "misc \<Rightarrow> cfg \<Rightarrow> fs \<Rightarrow> exn + (cfg \<times> fs)" where
  "memorize_pcb K c fs =
     (case os_path_getsize fs (input_file c) of
        Inl e \<Rightarrow> Inl e
      | Inr sz \<Rightarrow>
          (case os_path_getmtime fs (input_file c) of
             Inl e \<Rightarrow> Inl e
           | Inr dt \<Rightarrow>
               (let c1 = c\<lparr>pcb_size := sz, pcb_date := dt\<rparr> in
                if kicad_version c1 \<ge> KICAD_VERSION_5_99 K then
                  (case shutil_copy2 fs (input_file c1) (input_file c1 @ ''-bak'') of
                     Inl e \<Rightarrow> Inl e
                   | Inr fs1 \<Rightarrow> Inr (c1, fs1))
                else Inr (c1, fs))))"


text \<open>
  Example values used where the results below are evaluated: constants as the tool's
  support library defines them upstream, a session (timing scale 2) for a board file of recorded size 3
  and date 1, and a file system where the board has since been rewritten (date 2) and a
  one-byte file sits at the back-up path.
\<close>

definition example_misc :: misc where
  "example_misc = \<lparr>KICAD_VERSION_5_99 = 5099000, PCBNEW_ERROR = 9, WRONG_LAYER_NAME = 6\<rparr>"

definition example_cfg :: "int \<Rightarrow> cfg" where
  "example_cfg v = \<lparr>pcbnew = ''pcbnew'', input_file = ''b.kicad_pcb'', output_file = ''out/drc_result.rpt'',
     kicad_version = v, pcb_size = 3, pcb_date = 1, save = False, time_out_scale = 2,
     fill_zones = False, layers = [], errs = [], wrns = [], rec_width = 1366, rec_height = 960,
     print_dlg_name = ''Print'', select_a_filename = ''Select a filename''\<rparr>"

definition example_args :: args where
  "example_args = \<lparr>command = ''run_drc'', wait_start = 60, ignore_unconnected = False\<rparr>"

definition example_fs :: fs where
  "example_fs = (Map.empty(''b.kicad_pcb'' := Some (File ''new!'' 2)))(''b.kicad_pcb-bak'' := Some (File ''x'' 1))"

section \<open>Regular expressions of the report parser\<close>

text \<open>
  A line is a list of characters, each standing for one code point below 256.  The
  patterns are anchored at the start of the line and are matched without the multi-line
  flag: \<^verbatim>\<open>$\<close> accepts the end of the string or a single line feed before it,
  and \<^verbatim>\<open>.\<close> accepts every character but the line feed.  \<^verbatim>\<open>[0-9]\<close> and,
  among these characters, \<^verbatim>\<open>\d\<close> accept the ten ASCII digits; \<^verbatim>\<open>\S\<close> accepts
  what is not white space.
\<close>

definition is_digit :: "char \<Rightarrow> bool" where
  "is_digit ch = (ch \<in> set ''0123456789'')"

definition is_space :: "char \<Rightarrow> bool" where
  "is_space ch = (ch \<in> set [CHR 0x09, CHR 0x0A, CHR 0x0B, CHR 0x0C, CHR 0x0D,
                              CHR 0x1C, CHR 0x1D, CHR 0x1E, CHR 0x1F, CHR 0x20, CHR 0x85, CHR 0xA0])"

fun strip_prefix :: "string \<Rightarrow> string \<Rightarrow> string option" where
  "strip_prefix [] s = Some s"
| "strip_prefix (p # ps) [] = None"
| "strip_prefix (p # ps) (x # xs) = (if p = x then strip_prefix ps xs else None)"

definition at_end :: "string \<Rightarrow> bool" where
  "at_end r = (r = [] \<or> r = [CHR 0x0A])"

definition dot_star :: "string \<Rightarrow> string" where
  "dot_star r = takeWhile (\<lambda>ch. ch \<noteq> CHR 0x0A) r"

text \<open>
  A greedy group \<^verbatim>\<open>(X+)\<close> followed by a literal: the group first takes the longest
  run of accepted characters and gives characters back one at a time until the literal
  follows.  \<open>greedy_then k lit r\<close> tries the group lengths \<open>k\<close>, \<open>k - 1\<close>, \dots, 1 and
  returns the group and what follows the literal.
\<close>

fun greedy_then :: "nat \<Rightarrow> string \<Rightarrow> string \<Rightarrow> (string \<times> string) option" where
  "greedy_then 0 lit r = None"
| "greedy_then (Suc k) lit r =
     (case strip_prefix lit (drop (Suc k) r) of
        Some rest \<Rightarrow> Some (take (Suc k) r, rest)
      | None \<Rightarrow> greedy_then k lit r)"

definition group_then :: "(char \<Rightarrow> bool) \<Rightarrow> string \<Rightarrow> string \<Rightarrow> (string \<times> string) option" where
  "group_then accepted lit r = greedy_then (length (takeWhile accepted r)) lit r"

text \<open>\<^verbatim>\<open>^\*\* Found ([0-9]+) DRC (errors|violations) \*\*$\<close>, returning group 1.\<close>

definition match_found_errors :: "string \<Rightarrow> string option" where
  "match_found_errors line =
     (case strip_prefix ''** Found '' line of
        None \<Rightarrow> None
      | Some r \<Rightarrow>
          (case group_then is_digit '' DRC '' r of
             None \<Rightarrow> None
           | Some (g, r1) \<Rightarrow>
               (case strip_prefix ''errors'' r1 of
                  Some r2 \<Rightarrow>
                    (case strip_prefix '' **'' r2 of
                       Some r3 \<Rightarrow> if at_end r3 then Some g else None
                     | None \<Rightarrow> None)
                | None \<Rightarrow>
                    (case strip_prefix ''violations'' r1 of
                       Some r2 \<Rightarrow>
                         (case strip_prefix '' **'' r2 of
                            Some r3 \<Rightarrow> if at_end r3 then Some g else None
                          | None \<Rightarrow> None)
                     | None \<Rightarrow> None))))"

text \<open>\<^verbatim>\<open>^\*\* Found ([0-9]+) unconnected pads \*\*$\<close>, returning group 1.\<close>

definition match_found_unconnected :: "string \<Rightarrow> string option" where
  "match_found_unconnected line =
     (case strip_prefix ''** Found '' line of
        None \<Rightarrow> None
      | Some r \<Rightarrow>
          (case group_then is_digit '' unconnected pads **'' r of
             None \<Rightarrow> None
           | Some (g, r1) \<Rightarrow> if at_end r1 then Some g else None))"

text \<open>\<^verbatim>\<open>^\*\* End of Report \*\*$\<close>\<close>

definition match_end_of_report :: "string \<Rightarrow> bool" where
  "match_end_of_report line =
     (case strip_prefix ''** End of Report **'' line of None \<Rightarrow> False | Some r \<Rightarrow> at_end r)"

text \<open>
  The record prefix: \<^verbatim>\<open>^\[(\S+)\]: (.*)\<close> for the newer tool and
  \<^verbatim>\<open>^ErrType\((\d+)\): (.*)\<close> for the older one, returning groups 1 and 2.
\<close>

definition err_regex :: "misc \<Rightarrow> int \<Rightarrow> string \<Rightarrow> (string \<times> string) option" where
  "err_regex K ver line =
     (if ver \<ge> KICAD_VERSION_5_99 K then
        (case strip_prefix ''['' line of
           None \<Rightarrow> None
         | Some r \<Rightarrow>
             (case group_then (\<lambda>ch. \<not> is_space ch) '']: '' r of
                None \<Rightarrow> None
              | Some (g1, r1) \<Rightarrow> Some (g1, dot_star r1)))
      else
        (case strip_prefix ''ErrType('' line of
           None \<Rightarrow> None
         | Some r \<Rightarrow>
             (case group_then is_digit ''): '' r of
                None \<Rightarrow> None
              | Some (g1, r1) \<Rightarrow> Some (g1, dot_star r1))))"

text \<open>\<^verbatim>\<open>int\<close> applied to a string of ASCII digits.\<close>

definition digit_val :: "char \<Rightarrow> nat" where
  "digit_val ch = of_char ch - 48"

definition py_int :: "string \<Rightarrow> int" where
  "py_int ds = int (foldl (\<lambda>n ch. 10 * n + digit_val ch) 0 ds)"

section \<open>The report parser\<close>

text \<open>
  The variables of the loop in \<^verbatim>\<open>parse_drc\<close>; \<open>s_errs\<close> and \<open>s_wrns\<close> are the
  lists \<^verbatim>\<open>cfg.errs\<close> and \<^verbatim>\<open>cfg.wrns\<close>.
\<close>

record parse_state =
  drc_errors :: "string option"
  unconnected_pads :: "string option"
  in_errs :: bool
  in_wrns :: bool
  s_errs :: "string list"
  s_wrns :: "string list"

text \<open>\<^verbatim>\<open>'({}) {}'.format(m.group(1), m.group(2))\<close>\<close>

definition format_record :: "string \<times> string \<Rightarrow> string" where
  "format_record m = ''('' @ fst m @ '') '' @ snd m"

text \<open>\<^verbatim>\<open>xs.append(xs.pop() + '\n' + line)\<close> on a non-empty list.\<close>

definition merge_line :: "string list \<Rightarrow> string \<Rightarrow> string list" where
  "merge_line xs line = butlast xs @ [last xs @ [CHR 0x0A] @ line]"

text \<open>One pass through the loop body; \<open>None\<close> is the \<^verbatim>\<open>break\<close>.\<close>

definition drc_line :: "misc \<Rightarrow> int \<Rightarrow> parse_state \<Rightarrow> string \<Rightarrow> parse_state option" where
  "drc_line K ver st line =
     (case match_found_errors line of
        Some g \<Rightarrow> Some (st\<lparr>drc_errors := Some g, in_errs := True\<rparr>)
      | None \<Rightarrow>
     (case match_found_unconnected line of
        Some g \<Rightarrow> Some (st\<lparr>unconnected_pads := Some g, in_errs := False, in_wrns := True\<rparr>)
      | None \<Rightarrow>
     if match_end_of_report line then None
     else if in_errs st \<and> err_regex K ver line \<noteq> None then
       Some (st\<lparr>s_errs := s_errs st @ [format_record (the (err_regex K ver line))]\<rparr>)
     else if in_errs st \<and> length line > 4 \<and> length (s_errs st) > 0 then
       Some (st\<lparr>s_errs := merge_line (s_errs st) line\<rparr>)
     else if in_wrns st \<and> err_regex K ver line \<noteq> None then
       Some (st\<lparr>s_wrns := s_wrns st @ [format_record (the (err_regex K ver line))]\<rparr>)
     else if in_wrns st \<and> length line > 4 \<and> length (s_wrns st) > 0 then
       Some (st\<lparr>s_wrns := merge_line (s_wrns st) line\<rparr>)
     else Some st))"

fun drc_loop :: "misc \<Rightarrow> int \<Rightarrow> parse_state \<Rightarrow> string list \<Rightarrow> parse_state" where
  "drc_loop K ver st [] = st"
| "drc_loop K ver st (line # rest) =
     (case drc_line K ver st line of
        None \<Rightarrow> st
      | Some st' \<Rightarrow> drc_loop K ver st' rest)"

text \<open>
  \<^verbatim>\<open>parse_drc\<close> on the lines of the report file (the result of
  \<^verbatim>\<open>f.read().splitlines()\<close>).  It returns the two counts, or the exception of
  \<^verbatim>\<open>int(None)\<close>, together with the session whose lists it has extended.
\<close>

definition parse_drc :: "misc \<Rightarrow> cfg \<Rightarrow> string list \<Rightarrow> (exn + int \<times> int) \<times> cfg" where
  "parse_drc K c lines =
     (let st = drc_loop K (kicad_version c)
                 \<lparr>drc_errors = None, unconnected_pads = None, in_errs = False, in_wrns = False,
                  s_errs = errs c, s_wrns = wrns c\<rparr> lines;
          c' = c\<lparr>errs := s_errs st, wrns := s_wrns st\<rparr>
      in case drc_errors st of
           None \<Rightarrow> (Inl TypeError, c')
         | Some de \<Rightarrow>
             (case unconnected_pads st of
                None \<Rightarrow> (Inl TypeError, c')
              | Some up \<Rightarrow> (Inr (py_int de, py_int up), c')))"

section \<open>The verdict of a design-rule check\<close>

text \<open>
  \<^verbatim>\<open>process_drc_out\<close>.  The filter step \<^verbatim>\<open>apply_filters\<close> belongs to the
  support library and is a parameter: it maps the session to the numbers of error and
  unconnected records it skips.  The
  result is the error level, the session and the messages logged; the calls that list
  the records appear in the log under their names.
\<close>

definition process_drc_out ::
  "misc \<Rightarrow> args \<Rightarrow> (cfg \<Rightarrow> int \<times> int) \<Rightarrow> cfg \<Rightarrow> string list \<Rightarrow> (exn + int) \<times> cfg \<times> log list" where
  "process_drc_out K a apply_filters c lines =
     (case parse_drc K c lines of
        (Inl e, c') \<Rightarrow> (Inl e, c', [])
      | (Inr (drc_errors0, unconnected_pads0), c') \<Rightarrow>
          (let (skip_err, skip_unc) = apply_filters c';
               drc_errors1 = drc_errors0 - skip_err;
               unconnected_pads1 = unconnected_pads0 - skip_unc
           in if drc_errors1 = 0 \<and> unconnected_pads1 = 0 then
                (Inr 0, c', [Debug ''Found DRC errors and unconnected pads'', Info ''No errors''])
              else if ignore_unconnected a then
                (Inr (- (drc_errors1 + 0)), c',
                 [Debug ''Found DRC errors and unconnected pads'',
                  Error ''Found DRC errors and unconnected pads'', Info ''list_errors''])
              else
                (Inr (- (drc_errors1 + unconnected_pads1)), c',
                 [Debug ''Found DRC errors and unconnected pads'',
                  Error ''Found DRC errors and unconnected pads'', Info ''list_errors'',
                  Info ''list_warnings''])))"

text \<open>
  A report of the older tool with one error record, its continuation line and no
  unconnected pad; the same report cut off before the second header; and the state of
  the loop after the record of the first has been read.
\<close>

definition example_report :: "string list" where
  "example_report =
     [''** Drc report for b.kicad_pcb **'', ''** Found 1 DRC errors **'',
      ''ErrType(4): Track too close'', ''    @(1 mm, 2 mm): Track'', ''  '',
      ''** Found 0 unconnected pads **'', '''', ''** End of Report **'']"

definition example_report_cut :: "string list" where
  "example_report_cut =
     [''** Drc report for b.kicad_pcb **'', ''** Found 1 DRC errors **'',
      ''ErrType(4): Track too close'', ''** End of Report **'']"

definition example_state :: parse_state where
  "example_state = \<lparr>drc_errors = Some ''1'', unconnected_pads = None, in_errs = True,
     in_wrns = False, s_errs = [''(4) Track too close''], s_wrns = []\<rparr>"



section \<open>Marking the requested layers\<close>

text \<open>
  What \<^verbatim>\<open>create_pcbnew_config\<close> asks of the loaded board: the number of copper
  layers and the identifier of a named layer (negative when there is none).
\<close>

record board =
  GetCopperLayerCount :: int
  GetLayerID :: "string \<Rightarrow> int"

text \<open>
  \<^verbatim>\<open>^Inner\.([0-9]+)$\<close>, returning group 1.  The group takes all the digits that
  follow the dot: were it to give one back, a digit would follow, which the end of the
  string does not accept.
\<close>

definition match_inner :: "string \<Rightarrow> string option" where
  "match_inner layer =
     (case strip_prefix ''Inner.'' layer of
        None \<Rightarrow> None
      | Some r \<Rightarrow>
          if takeWhile is_digit r \<noteq> [] \<and> at_end (dropWhile is_digit r)
          then Some (takeWhile is_digit r) else None)"

text \<open>
  One pass through the loop over \<^verbatim>\<open>cfg.layers\<close>: the identifier to add to
  \<^verbatim>\<open>used_layers\<close>, or the message logged and the exit raised.
\<close>

definition check_layer :: "misc \<Rightarrow> board \<Rightarrow> string \<Rightarrow> (log \<times> exn) + int" where
  "check_layer K b layer =
     (let layer_cnt = GetCopperLayerCount b in
      if strip_prefix ''Inner'' layer \<noteq> None then
        (case match_inner layer of
           None \<Rightarrow>
             Inl (Error (''Malformed inner layer name: '' @ layer @ '', use Inner.N''),
                  SystemExit (WRONG_LAYER_NAME K))
         | Some g \<Rightarrow>
             (let layer_n = py_int g in
              if layer_n < 1 \<or> layer_n \<ge> layer_cnt - 1 then
                Inl (Error (layer @ '' isn't a valid layer''), SystemExit (WRONG_LAYER_NAME K))
              else Inr layer_n))
      else
        (let layer_id = GetLayerID b layer in
         if layer_id < 0 then Inl (Error (''Unknown layer '' @ layer), SystemExit (WRONG_LAYER_NAME K))
         else Inr layer_id))"

fun mark_layers :: "misc \<Rightarrow> board \<Rightarrow> int set \<Rightarrow> string list \<Rightarrow> (log \<times> exn) + int set" where
  "mark_layers K b used_layers [] = Inr used_layers"
| "mark_layers K b used_layers (layer # rest) =
     (case check_layer K b layer of
        Inl e \<Rightarrow> Inl e
      | Inr n \<Rightarrow> mark_layers K b (insert n used_layers) rest)"

text \<open>
  \<^verbatim>\<open>create_pcbnew_config\<close> up to the point where the set of requested layers is
  complete.  The function goes on to write the configuration file from this set and the
  print options; nothing in that part ends the program.
\<close>

definition create_pcbnew_config :: "misc \<Rightarrow> board \<Rightarrow> cfg \<Rightarrow> (log \<times> exn) + int set" where
  "create_pcbnew_config K b c = mark_layers K b {} (layers c)"

text \<open>A board with four copper layers that knows the two outer ones by name.\<close>

definition example_board :: board where
  "example_board = \<lparr>GetCopperLayerCount = 4,
     GetLayerID = (\<lambda>name. if name = ''F.Cu'' then 0 else if name = ''B.Cu'' then 31 else - 1)\<rparr>"

section \<open>The automation layer\<close>

text \<open>
  The interactive part of the program acts on the world outside: it sends keys, sleeps,
  waits for windows and starts processes.  Each such act is recorded, in order, in a
  trace.  What the world answers is not decided by the program and is read from the
  world: the outcome of each wait, the exit status each \<^verbatim>\<open>poll\<close> reports, each
  sample of the processor load, the lines of the report the tool writes, and the numbers
  of records that the filters of the support library skip.
\<close>

datatype wait_result = Found "string list" | TimedOut | Other string | Died

datatype action =
    Log log
  | Print string
  | Xdotool "string list"
  | Sleep real
  | WaitPoint
  | TextReplace string
  | WaitForWindow string string "nat option" "string option"
  | WaitNotFocused string "nat option"
  | WaitForFile string
  | GetLogFiles
  | RecordedXvfb nat
  | XvfbExit
  | Popen "string list"
  | PopenExit
  | ZoneFill
  | WriteDRCReport string
  | BoardSave string

record world =
  trace :: "action list"
  answers :: "nat \<Rightarrow> wait_result"
  asked :: nat
  polls :: "nat \<Rightarrow> int option"
  polled :: nat
  cpu_load :: "nat \<Rightarrow> real"
  sampled :: nat
  pcbnew_found :: bool
  files :: fs
  report :: "string list"
  skipped :: "cfg \<Rightarrow> int \<times> int"

text \<open>A computation returns a value or raises an exception, and leaves a world.\<close>

type_synonym 'a io = "world \<Rightarrow> (exn + 'a) \<times> world"

definition io_return :: "'a \<Rightarrow> 'a io" where
  "io_return x w = (Inr x, w)"

definition io_raise :: "exn \<Rightarrow> 'a io" where
  "io_raise e w = (Inl e, w)"

definition io_bind :: "'a io \<Rightarrow> ('a \<Rightarrow> 'b io) \<Rightarrow> 'b io" where
  "io_bind m f w = (case m w of (Inl e, w') \<Rightarrow> (Inl e, w') | (Inr x, w') \<Rightarrow> f x w')"

definition discard :: "'a io \<Rightarrow> unit io" where
  "discard m = io_bind m (\<lambda>x. io_return ())"

fun steps :: "unit io list \<Rightarrow> unit io" where
  "steps [] = io_return ()"
| "steps (m # ms) = io_bind m (\<lambda>x. steps ms)"

text \<open>\<^verbatim>\<open>try: m except RuntimeError: h\<close>\<close>

definition except_RuntimeError :: "'a io \<Rightarrow> 'a io \<Rightarrow> 'a io" where
  "except_RuntimeError m h w =
     (case m w of
        (Inl e, w') \<Rightarrow> if e = RuntimeError then h w' else (Inl e, w')
      | (Inr x, w') \<Rightarrow> (Inr x, w'))"

text \<open>\<^verbatim>\<open>with\<close> a context manager: the exit runs however the body ends.\<close>

definition with_ctx :: "unit io \<Rightarrow> unit io \<Rightarrow> 'a io \<Rightarrow> 'a io" where
  "with_ctx enter leave body =
     io_bind enter (\<lambda>x w. case body w of (r, w') \<Rightarrow> (r, snd (leave w')))"

definition emit :: "action \<Rightarrow> unit io" where
  "emit a w = (Inr (), w\<lparr>trace := trace w @ [a]\<rparr>)"

definition logger_debug :: "string \<Rightarrow> unit io" where
  "logger_debug s = emit (Log (Debug s))"

definition logger_info :: "string \<Rightarrow> unit io" where
  "logger_info s = emit (Log (Info s))"

definition logger_warning :: "string \<Rightarrow> unit io" where
  "logger_warning s = emit (Log (Warning s))"

definition logger_error :: "string \<Rightarrow> unit io" where
  "logger_error s = emit (Log (Error s))"

definition sleep :: "real \<Rightarrow> unit io" where
  "sleep d = emit (Sleep d)"

text \<open>\<^verbatim>\<open>xs[n]\<close>\<close>

definition index :: "'a list \<Rightarrow> nat \<Rightarrow> 'a io" where
  "index xs n = (if n < length xs then io_return (xs ! n) else io_raise IndexError)"

text \<open>\<^verbatim>\<open>str\<close> of an integer.\<close>

fun str_nat :: "nat \<Rightarrow> string" where
  "str_nat n = (if n < 10 then [''0123456789'' ! n]
                else str_nat (n div 10) @ [''0123456789'' ! (n mod 10)])"

definition py_str :: "int \<Rightarrow> string" where
  "py_str i = (if i < 0 then ''-'' @ str_nat (nat (- i)) else str_nat (nat i))"

subsection \<open>The support library\<close>

text \<open>
  Modelled from the spec: the functions of \<^verbatim>\<open>kiauto.ui_automation\<close> and
  \<^verbatim>\<open>kiauto.file_util\<close> called below are not among the sources.  Following the
  specification of the window wait engine and the exceptions their callers catch, a wait
  records itself in the trace and then returns the windows found, or raises
  \<^verbatim>\<open>RuntimeError\<close> on a time-out, \<^verbatim>\<open>ValueError\<close> naming an unexpected window, or
  \<^verbatim>\<open>CalledProcessError\<close> when the process has exited, as the world answers.  A time-out
  of \<open>None\<close> is the default of the library.  Sending keys, pasting text and the
  debugging stop \<^verbatim>\<open>wait_point\<close> record themselves and return.  The process
  identifier passed to \<^verbatim>\<open>wait_for_file_created_by_process\<close> is left out, and
  \<^verbatim>\<open>os.path.realpath\<close> is taken as the identity.  The context managers
  \<^verbatim>\<open>recorded_xvfb\<close> and \<^verbatim>\<open>PopenContext\<close> and the call
  \<^verbatim>\<open>get_log_files\<close> appear in the trace as the actions \<open>RecordedXvfb\<close>,
  \<open>XvfbExit\<close>, \<open>Popen\<close>, \<open>PopenExit\<close> and \<open>GetLogFiles\<close>.  Log messages
  are kept without the values formatted into them.
\<close>

definition ask :: "wait_result io" where
  "ask w = (Inr (answers w (asked w)), w\<lparr>asked := Suc (asked w)\<rparr>)"

definition answer :: "wait_result \<Rightarrow> string list io" where
  "answer r =
     (case r of
        Found ids \<Rightarrow> io_return ids
      | TimedOut \<Rightarrow> io_raise RuntimeError
      | Other title \<Rightarrow> io_raise (ValueError title)
      | Died \<Rightarrow> io_raise CalledProcessError)"

definition wait_for_window :: "string \<Rightarrow> string \<Rightarrow> nat option \<Rightarrow> string option \<Rightarrow> string list io" where
  "wait_for_window name window_regex timeout skip_id =
     io_bind (emit (WaitForWindow name window_regex timeout skip_id)) (\<lambda>x. io_bind ask answer)"

definition wait_not_focused :: "string \<Rightarrow> nat option \<Rightarrow> unit io" where
  "wait_not_focused win timeout =
     io_bind (emit (WaitNotFocused win timeout)) (\<lambda>x. discard (io_bind ask answer))"

definition wait_for_file_created_by_process :: "string \<Rightarrow> unit io" where
  "wait_for_file_created_by_process file =
     io_bind (emit (WaitForFile file)) (\<lambda>x. discard (io_bind ask answer))"

definition xdotool :: "string list \<Rightarrow> unit io" where
  "xdotool cmd = emit (Xdotool cmd)"

definition text_replace :: "string \<Rightarrow> unit io" where
  "text_replace s = emit (TextReplace s)"

definition wait_point :: "cfg \<Rightarrow> unit io" where
  "wait_point c = emit WaitPoint"

text \<open>
  \<^verbatim>\<open>Popen.poll\<close> and \<^verbatim>\<open>psutil\<close>'s \<^verbatim>\<open>cpu_percent\<close>; the latter is called on the
  result of the search for a process named \<^verbatim>\<open>pcbnew\<close>, which is \<^verbatim>\<open>None\<close> when
  there is no such process.
\<close>

definition poll :: "int option io" where
  "poll w = (Inr (polls w (polled w)), w\<lparr>polled := Suc (polled w)\<rparr>)"

definition cpu_percent :: "real io" where
  "cpu_percent w =
     (if pcbnew_found w then (Inr (cpu_load w (sampled w)), w\<lparr>sampled := Suc (sampled w)\<rparr>)
      else (Inl AttributeError, w))"

definition os_rename_io :: "string \<Rightarrow> string \<Rightarrow> unit io" where
  "os_rename_io src dst w =
     (case os_rename (files w) src dst of
        Inl e \<Rightarrow> (Inl e, w)
      | Inr fs' \<Rightarrow> (Inr (), w\<lparr>files := fs'\<rparr>))"

subsection \<open>Dialogs at start and exit\<close>

definition TITLE_CONFIRMATION :: string where
  "TITLE_CONFIRMATION = ''^Confirmation$''"

definition TITLE_ERROR :: string where
  "TITLE_ERROR = ''^Error$''"

definition TITLE_WARNING :: string where
  "TITLE_WARNING = ''^Warning$''"

definition dismiss_already_running :: "unit io" where
  "dismiss_already_running =
     steps [discard (wait_for_window TITLE_CONFIRMATION TITLE_CONFIRMATION (Some 1) None),
            logger_info ''Dismiss pcbnew already running'',
            xdotool [''search'', ''--onlyvisible'', ''--name'', TITLE_CONFIRMATION, ''windowfocus''],
            logger_debug ''Found, sending Return'',
            xdotool [''key'', ''Return''],
            logger_debug ''Wait a little, this dialog is slow'',
            sleep 5]"

definition dismiss_warning :: "unit io" where
  "dismiss_warning =
     steps [discard (wait_for_window TITLE_WARNING TITLE_WARNING (Some 1) None),
            logger_error ''Dismiss pcbnew warning, will fail'',
            xdotool [''search'', ''--onlyvisible'', ''--name'', TITLE_WARNING, ''windowfocus''],
            xdotool [''key'', ''Return'']]"

definition dismiss_error :: "unit io" where
  "dismiss_error =
     steps [discard (wait_for_window TITLE_ERROR TITLE_ERROR (Some 1) None),
            logger_debug ''Dismiss pcbnew error'',
            xdotool [''search'', ''--onlyvisible'', ''--name'', TITLE_ERROR, ''windowfocus''],
            logger_debug ''Found, sending Return'',
            xdotool [''key'', ''Return'']]"

definition wait_pcbnew :: "nat \<Rightarrow> string list io" where
  "wait_pcbnew time = wait_for_window ''Main pcbnew window'' ''Pcbnew'' (Some time) None"

text \<open>
  \<^verbatim>\<open>wait_pcbew_start\<close>.  The first part is the \<^verbatim>\<open>try\<close> statement with its three
  handlers, which yields the flag \<^verbatim>\<open>failed_focuse\<close> and the title \<^verbatim>\<open>other\<close>.
\<close>

definition first_wait :: "args \<Rightarrow> (bool \<times> string option) io" where
  "first_wait a w =
     (case wait_pcbnew (wait_start a) w of
        (Inr ids, w') \<Rightarrow> (Inr (False, None), w')
      | (Inl RuntimeError, w') \<Rightarrow>
          io_bind (logger_debug ''Time-out waiting for pcbnew, will retry'')
            (\<lambda>x. io_return (True, None)) w'
      | (Inl (ValueError other), w') \<Rightarrow>
          io_bind (logger_debug (''Found '' @ [CHR 0x22] @ other @ [CHR 0x22] @ '' window instead of pcbnew''))
            (\<lambda>x. io_return (True, Some other)) w'
      | (Inl CalledProcessError, w') \<Rightarrow>
          io_bind poll (\<lambda>rc.
          io_bind (logger_debug ''Pcbnew is no longer running'')
            (\<lambda>x. io_return (False, None))) w'
      | (Inl e, w') \<Rightarrow> (Inl e, w'))"

definition wait_pcbew_start :: "misc \<Rightarrow> args \<Rightarrow> cfg \<Rightarrow> unit io" where
  "wait_pcbew_start K a c =
     io_bind (first_wait a) (\<lambda>(failed_focuse, other).
       if failed_focuse then
         steps [wait_point c,
                if other = Some TITLE_ERROR then
                  steps [dismiss_error,
                         logger_error ''pcbnew reported an error'',
                         io_raise (SystemExit (PCBNEW_ERROR K))]
                else io_return (),
                if other = Some TITLE_CONFIRMATION then dismiss_already_running else io_return (),
                if other = Some TITLE_WARNING then dismiss_warning else io_return (),
                except_RuntimeError (discard (wait_pcbnew 5))
                  (steps [logger_error ''Time-out waiting for pcbnew, giving up'',
                          io_raise (SystemExit (PCBNEW_ERROR K))])]
       else io_return ())"

definition exit_pcbnew :: "cfg \<Rightarrow> unit io" where
  "exit_pcbnew c =
     io_bind (wait_pcbnew 10) (\<lambda>ids.
       steps [logger_info ''Exiting pcbnew'',
              wait_point c,
              xdotool [''key'', ''ctrl+q''],
              except_RuntimeError (io_bind (index ids 0) (\<lambda>i. wait_not_focused i (Some 5)))
                (logger_debug ''PCBnew not exiting, will retry''),
              logger_info ''Retry pcbnew exit'',
              wait_point c,
              xdotool [''key'', ''Return'', ''ctrl+q''],
              except_RuntimeError (io_bind (index ids 0) (\<lambda>i. wait_not_focused i (Some 5)))
                (logger_debug ''PCBnew not exiting, will kill''),
              wait_point c])"

subsection \<open>Printing layers\<close>

definition open_print_dialog :: "cfg \<Rightarrow> string list \<Rightarrow> string list io" where
  "open_print_dialog c print_dialog_keys =
     io_bind (steps [logger_info ''Open File->Print'',
                     wait_point c,
                     xdotool (''key'' # print_dialog_keys)]) (\<lambda>x.
     io_bind (except_RuntimeError
                (io_bind (wait_for_window ''Print dialog'' ''Print'' None None)
                   (\<lambda>ids. io_return (False, ids)))
                (io_return (True, []))) (\<lambda>(retry, ids).
     if retry then
       io_bind (steps [logger_info ''Open File->Print (retrying)'',
                       wait_point c,
                       xdotool (''key'' # print_dialog_keys)]) (\<lambda>x.
       wait_for_window ''Print dialog'' ''Print'' None None)
     else io_return ids))"

definition print_layers :: "misc \<Rightarrow> cfg \<Rightarrow> unit io" where
  "print_layers K c =
     (let print_dialog_keys =
            (if kicad_version c \<ge> KICAD_VERSION_5_99 K then [''ctrl+p''] else [''alt+f'', ''p''])
      in
      io_bind (if fill_zones c then
                 io_bind (steps [logger_info ''Fill zones'', wait_point c]) (\<lambda>x.
                 io_bind (open_print_dialog c print_dialog_keys) (\<lambda>ids.
                 steps [xdotool [''key'', ''Escape''],
                        io_bind (index ids 0) (\<lambda>i. wait_not_focused i None),
                        discard (wait_pcbnew 10),
                        xdotool [''key'', ''b''],
                        sleep 1,
                        discard (wait_pcbnew 10)]))
               else io_return ()) (\<lambda>x.
      io_bind (open_print_dialog c print_dialog_keys) (\<lambda>ids.
      io_bind (steps [wait_point c,
                      xdotool [''key'', ''shift+Tab'', ''shift+Tab'', ''shift+Tab'', ''shift+Tab'',
                               ''Return'']]) (\<lambda>x.
      io_bind (io_bind (index ids 0) (\<lambda>i.
                 wait_for_window ''Printer dialog'' (''^(Print|'' @ print_dlg_name c @ '')$'')
                   None (Some i))) (\<lambda>id2.
      io_bind (steps [wait_point c,
                      xdotool [''key'', ''Tab'', ''Home'', ''Tab'', ''Return'']]) (\<lambda>x.
      io_bind (wait_for_window ''Select a filename''
                 (''(Select a filename|'' @ select_a_filename c @ '')'') (Some 2) None) (\<lambda>id_sel_f.
      io_bind (steps [logger_info ''Pasting output dir'',
                      wait_point c,
                      text_replace (output_file c),
                      xdotool [''key'', ''Return''],
                      io_bind (index id_sel_f 0) (\<lambda>i. wait_not_focused i None),
                      io_bind (index ids 0) (\<lambda>i.
                        discard (wait_for_window ''Printer dialog''
                                   (''^(Print|'' @ print_dlg_name c @ '')$'') None (Some i))),
                      wait_point c,
                      xdotool [''key'', ''Tab'', ''Left'', ''Left'', ''Left'', ''Return''],
                      wait_for_file_created_by_process (output_file c),
                      io_bind (index id2 1) (\<lambda>i. wait_not_focused i None)]) (\<lambda>x.
      io_bind (wait_for_window ''Print dialog'' ''Print'' None None) (\<lambda>ids'.
      steps [wait_point c,
             xdotool [''key'', ''Escape''],
             io_bind (index id2 0) (\<lambda>i. wait_not_focused i None),
             exit_pcbnew c])))))))))"

subsection \<open>Rendering the 3D view\<close>

definition open_3d_view :: "cfg \<Rightarrow> string option io" where
  "open_3d_view c =
     io_bind (steps [logger_info ''Open View->3D Viewer'',
                     wait_point c,
                     sleep (1 * time_out_scale c),
                     xdotool [''key'', ''alt+3'']]) (\<lambda>x.
     io_bind (except_RuntimeError
                (io_bind (wait_for_window ''3D Viewer'' ''3D Viewer'' None None)
                   (\<lambda>ids. io_return (Some ids)))
                (io_return None)) (\<lambda>r.
     case r of
       None \<Rightarrow> io_return None
     | Some ids \<Rightarrow>
         io_bind (steps [sleep (1 * time_out_scale c),
                         logger_debug ''Moving 3D viewer window...'',
                         xdotool [''search'', ''--name'', ''3D Viewer'', ''windowmove'', ''0'', ''0''],
                         sleep (1 * time_out_scale c),
                         logger_debug ''Resizing 3D viewer window...'',
                         xdotool [''search'', ''--name'', ''3D Viewer'', ''windowsize'',
                                  py_str (rec_width c), py_str (rec_height c)],
                         sleep (1 * time_out_scale c),
                         logger_debug ''Waiting for render (sleep 1s)...'',
                         sleep (1 * time_out_scale c)]) (\<lambda>x.
         if ids \<noteq> [] then io_bind (index ids 0) (\<lambda>i. io_return (Some i)) else io_return None)))"

text \<open>
  The loop of \<^verbatim>\<open>_wait_for_pcbnew_idle\<close>, with the number of passes left and the
  count \<^verbatim>\<open>finished\<close>.
\<close>

fun idle_loop :: "nat \<Rightarrow> nat \<Rightarrow> bool io" where
  "idle_loop 0 finished = io_return False"
| "idle_loop (Suc n) finished =
     io_bind (sleep 0.5) (\<lambda>x.
     io_bind cpu_percent (\<lambda>pct.
     io_bind (emit (Print ''Rendering...'')) (\<lambda>x.
     if pct > 5 then idle_loop n 0
     else if finished + 1 \<ge> 4 then io_return True
     else idle_loop n (finished + 1))))"

definition wait_for_pcbnew_idle :: "nat \<Rightarrow> bool io" where
  "wait_for_pcbnew_idle timeout = idle_loop (2 * timeout) 0"

definition render_3d :: "misc \<Rightarrow> cfg \<Rightarrow> unit io" where
  "render_3d K c =
     io_bind (steps [logger_info ''Creating 3D render..'',
                     if kicad_version c \<ge> KICAD_VERSION_5_99 K then
                       logger_warning ''Note: render_3d has never been tested with Kicad V6!''
                     else io_return (),
                     logger_debug ''Preparing PCBnew window...'']) (\<lambda>x.
     io_bind (wait_pcbnew 5) (\<lambda>ids.
     io_bind (steps [io_bind (index ids 0) (\<lambda>i. xdotool [''windowmove'', ''--sync'', i, ''0'', ''0'']),
                     io_bind (index ids 0) (\<lambda>i.
                       xdotool [''windowsize'', ''--sync'', i, py_str (rec_width c),
                                py_str (rec_height c)]),
                     io_bind (index ids 0) (\<lambda>i. xdotool [''windowfocus'', ''--sync'', i])]) (\<lambda>x.
     io_bind (open_3d_view c) (\<lambda>id_3d.
     case id_3d of
       None \<Rightarrow> logger_warning ''Failed to open 3D Viewer''
     | Some i \<Rightarrow>
         steps [discard (wait_for_pcbnew_idle 30),
                logger_debug ''Zoom to fit..'',
                xdotool [''key'', ''--window'', i, ''Home'', ''F1''],
                discard (wait_for_pcbnew_idle 30),
                logger_debug ''Render with raytracing..'',
                xdotool [''key'', ''--window'', i, ''alt+p'', ''Down'', ''Return''],
                discard (wait_for_pcbnew_idle 300),
                logger_debug ''File -> Export current view as PNG'',
                xdotool [''key'', ''--window'', i, ''alt+f'', ''Return''],
                xdotool [''key'', ''--window'', i, ''ctrl+a''],
                logger_debug ''typing the output file...'',
                xdotool [''type'', output_file c],
                xdotool [''key'', ''--window'', i, ''Return''],
                logger_debug ''waiting for output file to be written...'',
                wait_for_file_created_by_process (output_file c),
                logger_info ''3D view saved'']))))"

subsection \<open>Running the design-rule check\<close>

definition run_drc_5_1 :: "cfg \<Rightarrow> unit io" where
  "run_drc_5_1 c =
     steps [logger_info ''Open Inspect->DRC'',
            wait_point c,
            xdotool [''key'', ''alt+i'', ''d''],
            discard (wait_for_window ''DRC modal window'' ''DRC Control'' None None),
            logger_info ''Enable reporting all errors for tracks'',
            wait_point c,
            xdotool [''key'', ''Tab'', ''Tab'', ''Tab'', ''Tab'', ''space'', ''Tab'', ''Tab'',
                     ''Tab'', ''Tab''],
            logger_info ''Pasting output dir'',
            wait_point c,
            text_replace (output_file c),
            xdotool [''key'', ''Return''],
            discard (wait_for_window ''Report completed dialog'' ''Disk File Report Completed''
                       None None),
            wait_point c,
            xdotool [''key'', ''Return''],
            discard (wait_for_window ''DRC modal window'' ''DRC Control'' None None),
            logger_info ''Closing the DRC dialog'',
            wait_point c,
            xdotool [''key'', ''shift+Tab'', ''Return''],
            discard (wait_pcbnew 10)]"

definition run_drc_6_0 :: "cfg \<Rightarrow> unit io" where
  "run_drc_6_0 c =
     steps [logger_info ''Open Inspect->DRC'',
            wait_point c,
            xdotool [''key'', ''ctrl+shift+i''],
            discard (wait_for_window ''DRC modal window'' ''DRC Control'' None None),
            logger_info ''Run DRC'',
            wait_point c,
            xdotool [''key'', ''Return''],
            sleep (12 * time_out_scale c),
            logger_info ''Open the save dialog'',
            wait_point c,
            logger_info ''Save DRC'',
            wait_point c,
            xdotool [''key'', ''shift+Tab'', ''shift+Tab'', ''shift+Tab'', ''shift+Tab'',
                     ''shift+Tab'', ''Return''],
            discard (wait_for_window ''DRC File save dialog'' ''Save Report to File'' None None),
            logger_info ''Pasting output file'',
            wait_point c,
            text_replace (output_file c),
            logger_info ''Wait for DRC file creation'',
            wait_point c,
            xdotool [''key'', ''Return''],
            wait_for_file_created_by_process (output_file c),
            logger_info ''Closing the DRC dialog'',
            wait_point c,
            xdotool [''key'', ''Escape''],
            discard (wait_pcbnew 10)]"

text \<open>
  In \<^verbatim>\<open>run_drc_python\<close> the calls into the tool's own Python module are recorded in
  the trace; renaming the input file acts on the files of the world.
\<close>

definition run_drc_python :: "cfg \<Rightarrow> unit io" where
  "run_drc_python c =
     steps [logger_debug ''Using Python interface instead of running KiCad'',
            logger_debug ''Re-filling zones'',
            emit ZoneFill,
            logger_debug ''Running DRC'',
            emit (WriteDRCReport (output_file c)),
            if save c then
              steps [logger_info ''Saving PCB'',
                     os_rename_io (input_file c) (input_file c @ ''-bak''),
                     emit (BoardSave (input_file c))]
            else io_return ()]"

definition run_drc :: "misc \<Rightarrow> cfg \<Rightarrow> unit io" where
  "run_drc K c =
     steps [if kicad_version c \<ge> KICAD_VERSION_5_99 K then run_drc_6_0 c else run_drc_5_1 c,
            if save c then
              steps [logger_info ''Saving PCB'',
                     wait_point c,
                     os_rename_io (input_file c) (input_file c @ ''-bak''),
                     xdotool [''key'', ''ctrl+s''],
                     logger_info ''Wait for PCB file creation'',
                     wait_point c,
                     wait_for_file_created_by_process (input_file c)]
            else io_return (),
            exit_pcbnew c]"

text \<open>\<^verbatim>\<open>process_drc_out\<close> on the report and the filters of the world.\<close>

definition process_drc_out_io :: "misc \<Rightarrow> args \<Rightarrow> cfg \<Rightarrow> int io" where
  "process_drc_out_io K a c w =
     (case process_drc_out K a (skipped w) c (report w) of
        (r, c', lg) \<Rightarrow> (r, w\<lparr>trace := trace w @ map Log lg\<rparr>))"

subsection \<open>Doing all the work\<close>

text \<open>
  One pass through the retry loop of the main program: a new virtual display, a new
  process, the wait for its start, and the work when it is running.  The result is the
  flag \<^verbatim>\<open>do_retry\<close> and the error level.
\<close>

definition attempt :: "misc \<Rightarrow> args \<Rightarrow> cfg \<Rightarrow> nat \<Rightarrow> int \<Rightarrow> (bool \<times> int) io" where
  "attempt K a c retry error_level =
     with_ctx (emit (RecordedXvfb retry)) (emit XvfbExit)
       (io_bind (logger_debug ''Starting pcbnew'') (\<lambda>x.
        with_ctx (emit (Popen [pcbnew c, input_file c])) (emit PopenExit)
          (io_bind (wait_pcbew_start K a c) (\<lambda>x.
           io_bind poll (\<lambda>rc.
           if rc \<noteq> None then io_return (True, error_level)
           else if command a = ''export'' then
             io_bind (print_layers K c) (\<lambda>x. io_return (False, error_level))
           else if command a = ''render_3d'' then
             io_bind (render_3d K c) (\<lambda>x. io_return (False, error_level))
           else
             io_bind (run_drc K c) (\<lambda>x.
             io_bind (process_drc_out_io K a c) (\<lambda>lvl. io_return (False, lvl))))))))"

fun retry_loop :: "misc \<Rightarrow> args \<Rightarrow> cfg \<Rightarrow> nat list \<Rightarrow> bool \<times> int \<Rightarrow> (bool \<times> int) io" where
  "retry_loop K a c [] r = io_return r"
| "retry_loop K a c (retry # rest) r =
     io_bind (attempt K a c retry (snd r)) (\<lambda>(do_retry, error_level).
       if \<not> do_retry then io_return (do_retry, error_level)
       else io_bind (logger_warning ''Pcbnew failed to start retrying ...'')
              (\<lambda>x. retry_loop K a c rest (do_retry, error_level)))"

text \<open>
  The part of the main program headed ``Do all the work'': it yields the error level
  that the program hands to \<^verbatim>\<open>exit\<close> after the clean-up, unless an exception or an
  earlier exit ends the program.
\<close>

definition do_all_the_work :: "misc \<Rightarrow> args \<Rightarrow> cfg \<Rightarrow> int io" where
  "do_all_the_work K a c =
     (if command a = ''run_drc'' \<and> kicad_version c \<ge> KICAD_VERSION_5_99 K then
        io_bind (run_drc_python c) (\<lambda>x. process_drc_out_io K a c)
      else
        io_bind (emit GetLogFiles) (\<lambda>x.
        io_bind (retry_loop K a c [0, 1, 2] (False, 0)) (\<lambda>(do_retry, error_level).
        if do_retry then
          io_bind (logger_error ''Pcbnew failed to start try with --time_out_scale'')
            (\<lambda>x. io_return (PCBNEW_ERROR K))
        else io_return error_level)))"

text \<open>The durations of the sleeps in a trace, and the displays and processes started.\<close>

fun sleeps :: "action list \<Rightarrow> real list" where
  "sleeps [] = []"
| "sleeps (Sleep d # tr) = d # sleeps tr"
| "sleeps (a # tr) = sleeps tr"

fun is_start :: "action \<Rightarrow> bool" where
  "is_start (RecordedXvfb n) = True"
| "is_start (Popen cmd) = True"
| "is_start a = False"

text \<open>
  A world that has recorded nothing yet: the process exits before its window appears,
  every poll reports exit status 1, and there is no report.
\<close>

definition example_world :: world where
  "example_world = \<lparr>trace = [], answers = (\<lambda>n. Died), asked = 0, polls = (\<lambda>n. Some 1),
     polled = 0, cpu_load = (\<lambda>n. 0), sampled = 0, pcbnew_found = True, files = example_fs,
     report = [], skipped = (\<lambda>c. (0, 0))\<rparr>"

text \<open>
  \<open>adds P m\<close>: whatever the world, running \<open>m\<close> only appends to the trace, and every
  action it appends satisfies \<open>P\<close>.
\<close>

definition adds :: "(action \<Rightarrow> bool) \<Rightarrow> 'a io \<Rightarrow> bool" where
  "adds P m = (\<forall>w. \<exists>tr. trace (snd (m w)) = trace w @ tr \<and> list_all P tr)"

fun sleeps_within :: "real set \<Rightarrow> action \<Rightarrow> bool" where
  "sleeps_within S (Sleep d) = (d \<in> S)"
| "sleeps_within S a = True"

text \<open>
  A world in which the process keeps running, the first wait is answered as given and
  every later wait finds the windows 7 and 8.
\<close>

definition example_first :: "wait_result \<Rightarrow> world" where
  "example_first r = example_world\<lparr>answers := (\<lambda>n. if n = 0 then r else Found [''7'', ''8'']),
     polls := (\<lambda>n. None)\<rparr>"

section \<open>Results on restoring the design file\<close>

text \<open>The outcome of \<^verbatim>\<open>restore_pcb\<close> in each of its branches.\<close>
lemma restore_unrecorded:
  "\<not> (input_file c \<noteq> [] \<and> pcb_size c \<ge> 0 \<and> pcb_date c \<ge> 0) \<Longrightarrow> restore_pcb K c fs = (None, fs, [])"
  by (auto simp: restore_pcb_def)

lemma restore_missing:
  "input_file c \<noteq> [] \<Longrightarrow> pcb_size c \<ge> 0 \<Longrightarrow> pcb_date c \<ge> 0 \<Longrightarrow> fs (input_file c) = None
   \<Longrightarrow> restore_pcb K c fs = (Some FileNotFoundError, fs, [])"
  by (simp add: restore_pcb_def os_path_getmtime_def)

lemma restore_same:
  "input_file c \<noteq> [] \<Longrightarrow> pcb_size c \<ge> 0 \<Longrightarrow> pcb_date c \<ge> 0 \<Longrightarrow> fs (input_file c) = Some n
   \<Longrightarrow> mtime n = pcb_date c
   \<Longrightarrow> restore_pcb K c fs =
       (None, if kicad_version c \<ge> KICAD_VERSION_5_99 K \<and> os_path_isfile fs (input_file c @ ''-bak'')
              then fs(input_file c @ ''-bak'' := None) else fs, [])"
  by (simp add: restore_pcb_def os_path_getmtime_def os_path_isfile_def os_remove_def
      split: option.splits node.splits)

lemma restore_no_backup:
  "input_file c \<noteq> [] \<Longrightarrow> pcb_size c \<ge> 0 \<Longrightarrow> pcb_date c \<ge> 0 \<Longrightarrow> fs (input_file c) = Some n
   \<Longrightarrow> mtime n \<noteq> pcb_date c \<Longrightarrow> \<not> os_path_isfile fs (input_file c @ ''-bak'')
   \<Longrightarrow> restore_pcb K c fs =
       (None, fs, [Debug ''Current pcb date, trying to restore it'', Error ''No back-up available!''])"
  by (simp add: restore_pcb_def restore_changed_def os_path_getmtime_def)

lemma restore_corrupted:
  "input_file c \<noteq> [] \<Longrightarrow> pcb_size c \<ge> 0 \<Longrightarrow> pcb_date c \<ge> 0 \<Longrightarrow> fs (input_file c) = Some n
   \<Longrightarrow> mtime n \<noteq> pcb_date c \<Longrightarrow> fs (input_file c @ ''-bak'') = Some (File bd bm)
   \<Longrightarrow> int (length bd) \<noteq> pcb_size c
   \<Longrightarrow> restore_pcb K c fs =
       (None, if kicad_version c \<ge> KICAD_VERSION_5_99 K then fs(input_file c @ ''-bak'' := None) else fs,
        [Debug ''Current pcb date, trying to restore it'', Error ''Corrupted back-up file!''])"
  by (simp add: restore_pcb_def restore_changed_def os_path_getmtime_def os_path_isfile_def
      os_path_getsize_def os_remove_def)

lemma restore_moved:
  "input_file c \<noteq> [] \<Longrightarrow> pcb_size c \<ge> 0 \<Longrightarrow> pcb_date c \<ge> 0 \<Longrightarrow> fs (input_file c) = Some (File d m)
   \<Longrightarrow> m \<noteq> pcb_date c \<Longrightarrow> fs (input_file c @ ''-bak'') = Some (File bd bm)
   \<Longrightarrow> int (length bd) = pcb_size c
   \<Longrightarrow> restore_pcb K c fs =
       (None, (fs(input_file c @ ''-bak'' := None))(input_file c := Some (File bd bm)),
        [Debug ''Current pcb date, trying to restore it'', Debug ''Moved''])"
  by (simp add: restore_pcb_def restore_changed_def os_path_getmtime_def os_path_isfile_def
      os_path_getsize_def os_remove_def os_rename_def fun_upd_twist)

lemma restore_input_dir:
  "input_file c \<noteq> [] \<Longrightarrow> pcb_size c \<ge> 0 \<Longrightarrow> pcb_date c \<ge> 0 \<Longrightarrow> fs (input_file c) = Some (Dir s m)
   \<Longrightarrow> m \<noteq> pcb_date c \<Longrightarrow> fs (input_file c @ ''-bak'') = Some (File bd bm)
   \<Longrightarrow> int (length bd) = pcb_size c
   \<Longrightarrow> restore_pcb K c fs =
       (Some IsADirectoryError, fs, [Debug ''Current pcb date, trying to restore it''])"
  by (simp add: restore_pcb_def restore_changed_def os_path_getmtime_def os_path_isfile_def
      os_path_getsize_def os_remove_def os_rename_def)

lemma isfile_upd_other:
  "q \<noteq> p \<Longrightarrow> os_path_isfile (fs(p := v)) q = os_path_isfile fs q"
  by (simp add: os_path_isfile_def)

lemma isfile_upd_None: "\<not> os_path_isfile (fs(p := None)) p"
  by (simp add: os_path_isfile_def)

lemma isfile_SomeFile: "os_path_isfile fs p \<Longrightarrow> \<exists>d m. fs p = Some (File d m)"
  by (auto simp: os_path_isfile_def split: option.splits node.splits)

lemma restore_pcb_idem:
  "fst (snd (restore_pcb K c (fst (snd (restore_pcb K c fs))))) = fst (snd (restore_pcb K c fs))"
proof (cases "input_file c \<noteq> [] \<and> pcb_size c \<ge> 0 \<and> pcb_date c \<ge> 0")
  case False
  from restore_unrecorded [OF this] show ?thesis by simp
next
  case True
  then have g: "input_file c \<noteq> []" "pcb_size c \<ge> 0" "pcb_date c \<ge> 0" by simp_all
  let ?i = "input_file c" and ?b = "input_file c @ ''-bak''"
  have ne: "?i \<noteq> ?b" by simp
  show ?thesis
  proof (cases "fs ?i")
    case None
    then show ?thesis by (simp add: restore_missing [OF g])
  next
    case (Some n)
    show ?thesis
    proof (cases "mtime n = pcb_date c")
      case same: True
      show ?thesis
      proof (cases "kicad_version c \<ge> KICAD_VERSION_5_99 K \<and> os_path_isfile fs ?b")
        case True
        have "(fs(?b := None)) ?i = Some n" using Some ne by simp
        from restore_same [where fs = "fs(?b := None)" and K = K, OF g this same]
          restore_same [where fs = fs and K = K, OF g Some same] True
        show ?thesis by (simp add: isfile_upd_None)
      next
        case False
        with restore_same [where fs = fs and K = K, OF g Some same] show ?thesis by simp
      qed
    next
      case changed: False
      show ?thesis
      proof (cases "os_path_isfile fs ?b")
        case False
        with restore_no_backup [where fs = fs and K = K, OF g Some changed] show ?thesis by simp
      next
        case True
        then obtain bd bm where bk: "fs ?b = Some (File bd bm)" using isfile_SomeFile by blast
        show ?thesis
        proof (cases "int (length bd) = pcb_size c")
          case mismatch: False
          show ?thesis
          proof (cases "kicad_version c \<ge> KICAD_VERSION_5_99 K")
            case True
            have i': "(fs(?b := None)) ?i = Some n" using Some ne by simp
            have "\<not> os_path_isfile (fs(?b := None)) ?b" by (rule isfile_upd_None)
            from restore_no_backup [where fs = "fs(?b := None)" and K = K, OF g i' changed this]
              restore_corrupted [where fs = fs and K = K, OF g Some changed bk mismatch] True
            show ?thesis by simp
          next
            case False
            with restore_corrupted [where fs = fs and K = K, OF g Some changed bk mismatch] show ?thesis by simp
          qed
        next
          case match: True
          show ?thesis
          proof (cases n)
            case (Dir s m)
            with Some changed have "fs ?i = Some (Dir s m)" "m \<noteq> pcb_date c" by simp_all
            from restore_input_dir [where fs = fs and K = K, OF g this bk match] show ?thesis by simp
          next
            case (File d m)
            with Some changed have i: "fs ?i = Some (File d m)" "m \<noteq> pcb_date c" by simp_all
            let ?fs1 = "(fs(?b := None))(?i := Some (File bd bm))"
            have r1: "restore_pcb K c fs = (None, ?fs1,
                [Debug ''Current pcb date, trying to restore it'', Debug ''Moved''])"
              by (rule restore_moved [where fs = fs, OF g i bk match])
            have i1: "?fs1 ?i = Some (File bd bm)" by simp
            have nb: "\<not> os_path_isfile ?fs1 ?b" by (simp add: os_path_isfile_def)
            show ?thesis
            proof (cases "bm = pcb_date c")
              case True
              then have "mtime (File bd bm) = pcb_date c" by simp
              from restore_same [where fs = ?fs1 and K = K, OF g i1 this] nb r1 show ?thesis by simp
            next
              case False
              then have "mtime (File bd bm) \<noteq> pcb_date c" by simp
              from restore_no_backup [where fs = ?fs1 and K = K, OF g i1 this nb] r1 show ?thesis by simp
            qed
          qed
        qed
      qed
    qed
  qed
qed

text \<open>
  Claim C1, as the code has it.  For a session that recorded size and date of the design
  file, a regular file: when the current modification time equals the recorded one the
  design file is left as it is; when it differs and the back-up is a regular file of
  exactly the recorded size, the design file is replaced by the back-up and the back-up
  path is empty afterwards; when it differs and the back-up is missing or of another
  size, an error is logged and the design file is left as it is.  In this last case the
  back-up stays for a tool version below the 5.99 threshold, while at or above the
  threshold an existing back-up file is removed.
\<close>

theorem restore_pcb_cases:
  assumes g: "input_file c \<noteq> []" "0 \<le> pcb_size c" "0 \<le> pcb_date c"
      and cur: "fs (input_file c) = Some (File d m)"
  shows "(m = pcb_date c \<longrightarrow>
            (\<exists>fs' lg. restore_pcb K c fs = (None, fs', lg) \<and> fs' (input_file c) = Some (File d m)))
       \<and> (m \<noteq> pcb_date c \<and> fs (input_file c @ ''-bak'') = Some (File bd bm) \<and> int (length bd) = pcb_size c \<longrightarrow>
            (\<exists>lg. restore_pcb K c fs =
               (None, (fs(input_file c @ ''-bak'' := None))(input_file c := Some (File bd bm)), lg)))
       \<and> (m \<noteq> pcb_date c \<and> (\<not> os_path_isfile fs (input_file c @ ''-bak'')
               \<or> os_path_getsize fs (input_file c @ ''-bak'') \<noteq> Inr (pcb_size c)) \<longrightarrow>
            (\<exists>fs' lg msg. restore_pcb K c fs = (None, fs', lg) \<and> Error msg \<in> set lg
               \<and> fs' (input_file c) = Some (File d m)
               \<and> (kicad_version c < KICAD_VERSION_5_99 K \<longrightarrow> fs' = fs)
               \<and> (KICAD_VERSION_5_99 K \<le> kicad_version c \<longrightarrow>
                    fs' = (if os_path_isfile fs (input_file c @ ''-bak'')
                           then fs(input_file c @ ''-bak'' := None) else fs))))"
proof (intro conjI impI)
  assume "m = pcb_date c"
  then have "mtime (File d m) = pcb_date c" by simp
  from restore_same [where fs = fs and K = K, OF g cur this] cur
  show "\<exists>fs' lg. restore_pcb K c fs = (None, fs', lg) \<and> fs' (input_file c) = Some (File d m)"
    by simp
next
  assume a: "m \<noteq> pcb_date c \<and> fs (input_file c @ ''-bak'') = Some (File bd bm) \<and> int (length bd) = pcb_size c"
  then have "m \<noteq> pcb_date c" "fs (input_file c @ ''-bak'') = Some (File bd bm)"
    "int (length bd) = pcb_size c" by simp_all
  from restore_moved [where fs = fs and K = K, OF g cur this]
  show "\<exists>lg. restore_pcb K c fs =
      (None, (fs(input_file c @ ''-bak'' := None))(input_file c := Some (File bd bm)), lg)"
    by simp
next
  assume a: "m \<noteq> pcb_date c \<and> (\<not> os_path_isfile fs (input_file c @ ''-bak'')
               \<or> os_path_getsize fs (input_file c @ ''-bak'') \<noteq> Inr (pcb_size c))"
  then have ch: "mtime (File d m) \<noteq> pcb_date c" by simp
  show "\<exists>fs' lg msg. restore_pcb K c fs = (None, fs', lg) \<and> Error msg \<in> set lg
               \<and> fs' (input_file c) = Some (File d m)
               \<and> (kicad_version c < KICAD_VERSION_5_99 K \<longrightarrow> fs' = fs)
               \<and> (KICAD_VERSION_5_99 K \<le> kicad_version c \<longrightarrow>
                    fs' = (if os_path_isfile fs (input_file c @ ''-bak'')
                           then fs(input_file c @ ''-bak'' := None) else fs))"
  proof (cases "os_path_isfile fs (input_file c @ ''-bak'')")
    case False
    from restore_no_backup [where fs = fs and K = K, OF g cur ch False] False cur
    show ?thesis by simp
  next
    case True
    then obtain xd xm where bk: "fs (input_file c @ ''-bak'') = Some (File xd xm)"
      using isfile_SomeFile by blast
    with a True have "int (length xd) \<noteq> pcb_size c" by (simp add: os_path_getsize_def)
    from restore_corrupted [where fs = fs and K = K, OF g cur ch bk this] True cur
    show ?thesis by simp
  qed
qed

text \<open>
  The hypotheses of C1 hold in the example session of the older tool, whose back-up has
  the wrong size: an error is logged and the file system is unchanged.
\<close>

theorem restore_pcb_cases_witness:
  "input_file (example_cfg 5001009) \<noteq> [] \<and> 0 \<le> pcb_size (example_cfg 5001009)
   \<and> 0 \<le> pcb_date (example_cfg 5001009)
   \<and> example_fs (input_file (example_cfg 5001009)) = Some (File ''new!'' 2)
   \<and> 2 \<noteq> pcb_date (example_cfg 5001009)
   \<and> os_path_getsize example_fs (input_file (example_cfg 5001009) @ ''-bak'') \<noteq> Inr (pcb_size (example_cfg 5001009))
   \<and> kicad_version (example_cfg 5001009) < KICAD_VERSION_5_99 example_misc
   \<and> (\<exists>lg msg. restore_pcb example_misc (example_cfg 5001009) example_fs = (None, example_fs, lg)
         \<and> Error msg \<in> set lg)"
proof -
  have h: "input_file (example_cfg 5001009) \<noteq> []" "0 \<le> pcb_size (example_cfg 5001009)"
    "0 \<le> pcb_date (example_cfg 5001009)"
    "example_fs (input_file (example_cfg 5001009)) = Some (File ''new!'' 2)"
    by (simp_all add: example_cfg_def example_fs_def)
  have k: "2 \<noteq> pcb_date (example_cfg 5001009)"
    "os_path_getsize example_fs (input_file (example_cfg 5001009) @ ''-bak'') \<noteq> Inr (pcb_size (example_cfg 5001009))"
    "kicad_version (example_cfg 5001009) < KICAD_VERSION_5_99 example_misc"
    by (simp_all add: example_cfg_def example_fs_def example_misc_def os_path_getsize_def)
  from restore_pcb_cases [where c = "example_cfg 5001009" and fs = example_fs and K = example_misc
      and d = "''new!''" and m = 2, OF h] h k
  show ?thesis by auto
qed

text \<open>
  Against C1 as stated: in the example session of the newer tool the date has changed,
  the back-up has the wrong size, and the restore removes the back-up.
\<close>

theorem restore_pcb_corrupt_deletes_backup:
  "os_path_getmtime example_fs (input_file (example_cfg 6000000)) \<noteq> Inr (pcb_date (example_cfg 6000000))
   \<and> os_path_getsize example_fs ''b.kicad_pcb-bak'' \<noteq> Inr (pcb_size (example_cfg 6000000))
   \<and> example_fs ''b.kicad_pcb-bak'' = Some (File ''x'' 1)
   \<and> fst (snd (restore_pcb example_misc (example_cfg 6000000) example_fs)) ''b.kicad_pcb-bak'' = None"
  by (simp add: restore_pcb_def restore_changed_def os_path_getmtime_def os_path_isfile_def
        os_path_getsize_def os_remove_def os_rename_def Let_def example_misc_def example_cfg_def example_fs_def)

text \<open>
  Claim C7.  Restoring twice leaves the file system that restoring once leaves.  When
  size or date were never recorded, or the design file still has the recorded date, the
  restore raises nothing and the file system is unchanged except that the back-up path
  may have been emptied.
\<close>

theorem restore_pcb_idempotent_safe:
  "fst (snd (restore_pcb K c (fst (snd (restore_pcb K c fs))))) = fst (snd (restore_pcb K c fs))
   \<and> (pcb_size c < 0 \<or> pcb_date c < 0 \<or> os_path_getmtime fs (input_file c) = Inr (pcb_date c) \<longrightarrow>
        fst (restore_pcb K c fs) = None
        \<and> (fst (snd (restore_pcb K c fs)) = fs
           \<or> fst (snd (restore_pcb K c fs)) = fs(input_file c @ ''-bak'' := None)))"
proof (rule conjI)
  show "fst (snd (restore_pcb K c (fst (snd (restore_pcb K c fs))))) = fst (snd (restore_pcb K c fs))"
    by (rule restore_pcb_idem)
next
  show "pcb_size c < 0 \<or> pcb_date c < 0 \<or> os_path_getmtime fs (input_file c) = Inr (pcb_date c) \<longrightarrow>
        fst (restore_pcb K c fs) = None
        \<and> (fst (snd (restore_pcb K c fs)) = fs
           \<or> fst (snd (restore_pcb K c fs)) = fs(input_file c @ ''-bak'' := None))"
  proof (rule impI)
    assume a: "pcb_size c < 0 \<or> pcb_date c < 0 \<or> os_path_getmtime fs (input_file c) = Inr (pcb_date c)"
    show "fst (restore_pcb K c fs) = None
          \<and> (fst (snd (restore_pcb K c fs)) = fs
             \<or> fst (snd (restore_pcb K c fs)) = fs(input_file c @ ''-bak'' := None))"
    proof (cases "input_file c \<noteq> [] \<and> pcb_size c \<ge> 0 \<and> pcb_date c \<ge> 0")
      case False
      from restore_unrecorded [OF this] show ?thesis by simp
    next
      case True
      then have g: "input_file c \<noteq> []" "pcb_size c \<ge> 0" "pcb_date c \<ge> 0" by simp_all
      with a have "os_path_getmtime fs (input_file c) = Inr (pcb_date c)" by simp
      then obtain n where n: "fs (input_file c) = Some n" "mtime n = pcb_date c"
        by (auto simp: os_path_getmtime_def split: option.splits)
      from restore_same [where fs = fs and K = K, OF g n] show ?thesis by simp
    qed
  qed
qed

text \<open>
  C7 in the example session of the newer tool with an unmodified design file: the only
  change is the removal of the left-over back-up.
\<close>

theorem restore_pcb_idempotent_safe_witness:
  "os_path_getmtime example_fs (input_file ((example_cfg 6000000)\<lparr>pcb_date := 2\<rparr>))
      = Inr (pcb_date ((example_cfg 6000000)\<lparr>pcb_date := 2\<rparr>))
   \<and> fst (restore_pcb example_misc ((example_cfg 6000000)\<lparr>pcb_date := 2\<rparr>) example_fs) = None
   \<and> fst (snd (restore_pcb example_misc ((example_cfg 6000000)\<lparr>pcb_date := 2\<rparr>) example_fs))
       = example_fs(''b.kicad_pcb-bak'' := None)"
proof -
  have h: "os_path_getmtime example_fs (input_file ((example_cfg 6000000)\<lparr>pcb_date := 2\<rparr>))
      = Inr (pcb_date ((example_cfg 6000000)\<lparr>pcb_date := 2\<rparr>))"
    by (simp add: example_cfg_def example_fs_def os_path_getmtime_def)
  have ne: "fst (snd (restore_pcb example_misc ((example_cfg 6000000)\<lparr>pcb_date := 2\<rparr>) example_fs)) \<noteq> example_fs"
  proof
    assume "fst (snd (restore_pcb example_misc ((example_cfg 6000000)\<lparr>pcb_date := 2\<rparr>) example_fs)) = example_fs"
    then have "fst (snd (restore_pcb example_misc ((example_cfg 6000000)\<lparr>pcb_date := 2\<rparr>) example_fs)) ''b.kicad_pcb-bak''
       = example_fs ''b.kicad_pcb-bak''" by simp
    then show False
      by (simp add: restore_pcb_def os_path_getmtime_def os_path_isfile_def os_remove_def
          example_misc_def example_cfg_def example_fs_def)
  qed
  from restore_pcb_idempotent_safe [of example_misc "(example_cfg 6000000)\<lparr>pcb_date := 2\<rparr>" example_fs] h ne
  show ?thesis by (auto simp: example_cfg_def)
qed

text \<open>
  A session that remembers an untouched design file and then restores it leaves the file
  system as it found it, the back-up made for the newer tool included.
\<close>

lemma memorize_then_restore:
  assumes "input_file c \<noteq> []" "fs (input_file c) = Some (File d m)" "0 \<le> m"
      and "fs (input_file c @ ''-bak'') = None"
  shows "\<exists>c1 fs1. memorize_pcb K c fs = Inr (c1, fs1) \<and> restore_pcb K c1 fs1 = (None, fs, [])"
proof (cases "KICAD_VERSION_5_99 K \<le> kicad_version c")
  case True
  let ?c1 = "c\<lparr>pcb_size := int (length d), pcb_date := m\<rparr>"
  let ?fs1 = "fs(input_file c @ ''-bak'' := Some (File d m))"
  from assms True have m: "memorize_pcb K c fs = Inr (?c1, ?fs1)"
    by (simp add: memorize_pcb_def os_path_getsize_def os_path_getmtime_def shutil_copy2_def)
  have "?fs1(input_file c @ ''-bak'' := None) = fs" using assms(4) by (simp add: fun_eq_iff)
  with assms True have "restore_pcb K ?c1 ?fs1 = (None, fs, [])"
    by (simp add: restore_pcb_def os_path_getmtime_def os_path_isfile_def os_remove_def)
  with m show ?thesis by blast
next
  case False
  let ?c1 = "c\<lparr>pcb_size := int (length d), pcb_date := m\<rparr>"
  from assms False have m: "memorize_pcb K c fs = Inr (?c1, fs)"
    by (simp add: memorize_pcb_def os_path_getsize_def os_path_getmtime_def)
  from assms False have "restore_pcb K ?c1 fs = (None, fs, [])"
    by (simp add: restore_pcb_def os_path_getmtime_def os_path_isfile_def)
  with m show ?thesis by blast
qed

section \<open>Results on the report parser\<close>

text \<open>A matched literal prefix accounts for its length; short lines match no marker.\<close>
lemma strip_prefix_length: "strip_prefix p s = Some r \<Longrightarrow> length s = length p + length r"
  by (induction p s rule: strip_prefix.induct) (auto split: if_splits)

lemma short_not_found_errors: "length line \<le> 4 \<Longrightarrow> match_found_errors line = None"
  by (auto simp: match_found_errors_def split: option.splits dest!: strip_prefix_length)

lemma short_not_found_unconnected: "length line \<le> 4 \<Longrightarrow> match_found_unconnected line = None"
  by (auto simp: match_found_unconnected_def split: option.splits dest!: strip_prefix_length)

lemma short_not_end_of_report: "length line \<le> 4 \<Longrightarrow> \<not> match_end_of_report line"
  by (auto simp: match_end_of_report_def split: option.splits dest!: strip_prefix_length)

lemma drc_line_short:
  "length line \<le> 4 \<Longrightarrow> err_regex K ver line = None \<Longrightarrow> drc_line K ver st line = Some st"
  by (simp add: drc_line_def short_not_found_errors short_not_found_unconnected
      short_not_end_of_report)

lemma drc_line_merge_errs:
  "match_found_errors line = None \<Longrightarrow> match_found_unconnected line = None
   \<Longrightarrow> \<not> match_end_of_report line \<Longrightarrow> err_regex K ver line = None
   \<Longrightarrow> in_errs st \<Longrightarrow> length line > 4 \<Longrightarrow> s_errs st \<noteq> []
   \<Longrightarrow> drc_line K ver st line = Some (st\<lparr>s_errs := butlast (s_errs st) @ [last (s_errs st) @ [CHR 0x0A] @ line]\<rparr>)"
  by (simp add: drc_line_def merge_line_def)

lemma drc_line_merge_wrns:
  "match_found_errors line = None \<Longrightarrow> match_found_unconnected line = None
   \<Longrightarrow> \<not> match_end_of_report line \<Longrightarrow> err_regex K ver line = None
   \<Longrightarrow> \<not> in_errs st \<Longrightarrow> in_wrns st \<Longrightarrow> length line > 4 \<Longrightarrow> s_wrns st \<noteq> []
   \<Longrightarrow> drc_line K ver st line = Some (st\<lparr>s_wrns := butlast (s_wrns st) @ [last (s_wrns st) @ [CHR 0x0A] @ line]\<rparr>)"
  by (simp add: drc_line_def merge_line_def)

text \<open>
  Claim C5.  Take a line that does not match the record prefix, met by the loop in state
  \<open>st\<close>.  If the line is none of the three markers, is longer than 4 characters, the
  parser is in the errors section and the list of error records is not empty, the line is
  appended to the last error record after a line feed; likewise for the warnings section
  and the list of warning records.  If the line has 4 characters or fewer it is skipped
  and the state is unchanged.  The lists are empty when a session starts, so a non-empty
  list means that a record has been parsed.
\<close>

theorem continuation_line_merged:
  assumes "err_regex K ver line = None"
  shows "(match_found_errors line = None \<and> match_found_unconnected line = None
            \<and> \<not> match_end_of_report line \<and> in_errs st \<and> length line > 4 \<and> s_errs st \<noteq> [] \<longrightarrow>
          drc_loop K ver st (line # rest) =
            drc_loop K ver (st\<lparr>s_errs := butlast (s_errs st) @ [last (s_errs st) @ [CHR 0x0A] @ line]\<rparr>) rest)
       \<and> (match_found_errors line = None \<and> match_found_unconnected line = None
            \<and> \<not> match_end_of_report line \<and> \<not> in_errs st \<and> in_wrns st \<and> length line > 4 \<and> s_wrns st \<noteq> [] \<longrightarrow>
          drc_loop K ver st (line # rest) =
            drc_loop K ver (st\<lparr>s_wrns := butlast (s_wrns st) @ [last (s_wrns st) @ [CHR 0x0A] @ line]\<rparr>) rest)
       \<and> (length line \<le> 4 \<longrightarrow> drc_loop K ver st (line # rest) = drc_loop K ver st rest)"
  using assms
  by (simp add: drc_line_short drc_line_merge_errs drc_line_merge_wrns)

lemma drc_line_drc_errors:
  "drc_line K v st l = Some st' \<Longrightarrow> drc_errors st' \<noteq> None
   \<Longrightarrow> drc_errors st \<noteq> None \<or> match_found_errors l \<noteq> None"
  by (auto simp: drc_line_def split: option.splits if_splits)

lemma drc_line_unconnected:
  "drc_line K v st l = Some st' \<Longrightarrow> unconnected_pads st' \<noteq> None
   \<Longrightarrow> unconnected_pads st \<noteq> None \<or> match_found_unconnected l \<noteq> None"
  by (auto simp: drc_line_def split: option.splits if_splits)

lemma drc_loop_drc_errors:
  "drc_errors (drc_loop K v st ls) \<noteq> None
   \<Longrightarrow> drc_errors st \<noteq> None \<or> (\<exists>l\<in>set ls. match_found_errors l \<noteq> None)"
proof (induction ls arbitrary: st)
  case Nil
  then show ?case by simp
next
  case (Cons l ls)
  show ?case
  proof (cases "drc_line K v st l")
    case None
    with Cons.prems show ?thesis by simp
  next
    case (Some st')
    with Cons.prems have "drc_errors (drc_loop K v st' ls) \<noteq> None" by simp
    from Cons.IH [OF this] drc_line_drc_errors [OF Some] show ?thesis by auto
  qed
qed

lemma drc_loop_unconnected:
  "unconnected_pads (drc_loop K v st ls) \<noteq> None
   \<Longrightarrow> unconnected_pads st \<noteq> None \<or> (\<exists>l\<in>set ls. match_found_unconnected l \<noteq> None)"
proof (induction ls arbitrary: st)
  case Nil
  then show ?case by simp
next
  case (Cons l ls)
  show ?case
  proof (cases "drc_line K v st l")
    case None
    with Cons.prems show ?thesis by simp
  next
    case (Some st')
    with Cons.prems have "unconnected_pads (drc_loop K v st' ls) \<noteq> None" by simp
    from Cons.IH [OF this] drc_line_unconnected [OF Some] show ?thesis by auto
  qed
qed

lemma parse_drc_Inr:
  "fst (parse_drc K c lines) = Inr (de, up)
   \<Longrightarrow> (\<exists>l\<in>set lines. match_found_errors l \<noteq> None) \<and> (\<exists>l\<in>set lines. match_found_unconnected l \<noteq> None)"
proof -
  let ?st = "drc_loop K (kicad_version c) \<lparr>drc_errors = None, unconnected_pads = None, in_errs = False, in_wrns = False,
                  s_errs = errs c, s_wrns = wrns c\<rparr> lines"
  assume "fst (parse_drc K c lines) = Inr (de, up)"
  then have "drc_errors ?st \<noteq> None" "unconnected_pads ?st \<noteq> None"
    by (auto simp: parse_drc_def Let_def split: option.splits)
  from drc_loop_drc_errors [OF this(1)] drc_loop_unconnected [OF this(2)]
  show ?thesis by simp
qed

lemma parse_drc_result:
  "(\<exists>de up. fst (parse_drc K c lines) = Inr (de, up)) \<or> fst (parse_drc K c lines) = Inl TypeError"
  by (auto simp: parse_drc_def Let_def split: option.splits)

text \<open>
  Claim C9.  When \<^verbatim>\<open>parse_drc\<close> returns a pair of counts, some line of the report
  matches the header of the errors and some line matches the header of the unconnected
  pads; when no line matches one of the two headers, the call ends in the exception of
  \<^verbatim>\<open>int(None)\<close>.
\<close>

theorem parse_drc_needs_both_headers:
  "(fst (parse_drc K c lines) = Inr (de, up) \<longrightarrow>
      (\<exists>l\<in>set lines. match_found_errors l \<noteq> None) \<and> (\<exists>l\<in>set lines. match_found_unconnected l \<noteq> None))
   \<and> ((\<forall>l\<in>set lines. match_found_errors l = None) \<or> (\<forall>l\<in>set lines. match_found_unconnected l = None) \<longrightarrow>
      fst (parse_drc K c lines) = Inl TypeError)"
  by (metis parse_drc_Inr parse_drc_result)


text \<open>The example report parsed.\<close>

lemma example_parse:
  "parse_drc example_misc (example_cfg 5001009) example_report =
     (Inr (1, 0), (example_cfg 5001009)\<lparr>errs := [''(4) Track too close'' @ [CHR 0x0A] @ ''    @(1 mm, 2 mm): Track'']\<rparr>)"
  by (simp add: parse_drc_def example_report_def example_cfg_def example_misc_def drc_line_def
      match_found_errors_def match_found_unconnected_def match_end_of_report_def err_regex_def
      group_then_def is_digit_def is_space_def at_end_def dot_star_def py_int_def digit_val_def
      format_record_def merge_line_def)

text \<open>
  C5 on the example: the line with the coordinates is merged into the record read before
  it, and the line of two blanks is skipped.
\<close>

theorem continuation_line_merged_witness:
  "err_regex example_misc 5001009 ''    @(1 mm, 2 mm): Track'' = None
   \<and> match_found_errors ''    @(1 mm, 2 mm): Track'' = None
   \<and> match_found_unconnected ''    @(1 mm, 2 mm): Track'' = None
   \<and> \<not> match_end_of_report ''    @(1 mm, 2 mm): Track''
   \<and> in_errs example_state \<and> length ''    @(1 mm, 2 mm): Track'' > 4 \<and> s_errs example_state \<noteq> []
   \<and> drc_loop example_misc 5001009 example_state [''    @(1 mm, 2 mm): Track''] =
       example_state\<lparr>s_errs := [''(4) Track too close'' @ [CHR 0x0A] @ ''    @(1 mm, 2 mm): Track'']\<rparr>
   \<and> err_regex example_misc 5001009 ''  '' = None \<and> length ''  '' \<le> 4
   \<and> drc_loop example_misc 5001009 example_state [''  ''] = example_state"
proof -
  have h: "err_regex example_misc 5001009 ''    @(1 mm, 2 mm): Track'' = None"
    "err_regex example_misc 5001009 ''  '' = None"
    by (simp_all add: err_regex_def example_misc_def)
  have m: "match_found_errors ''    @(1 mm, 2 mm): Track'' = None"
    "match_found_unconnected ''    @(1 mm, 2 mm): Track'' = None"
    "\<not> match_end_of_report ''    @(1 mm, 2 mm): Track''"
    by (simp_all add: match_found_errors_def match_found_unconnected_def match_end_of_report_def)
  have s: "in_errs example_state" "s_errs example_state \<noteq> []"
    "butlast (s_errs example_state) = []" "last (s_errs example_state) = ''(4) Track too close''"
    by (simp_all add: example_state_def)
  from continuation_line_merged [OF h(1), of example_state "[]"]
    continuation_line_merged [OF h(2), of example_state "[]"] h m s
  show ?thesis by simp
qed

text \<open>
  C9 on the examples: the report cut off before the second header raises, the complete
  one returns the counts 1 and 0.
\<close>

theorem parse_drc_needs_both_headers_witness:
  "list_all (\<lambda>l. match_found_unconnected l = None) example_report_cut
   \<and> fst (parse_drc example_misc (example_cfg 5001009) example_report_cut) = Inl TypeError
   \<and> fst (parse_drc example_misc (example_cfg 5001009) example_report) = Inr (1, 0)
   \<and> (\<exists>l\<in>set example_report. match_found_errors l \<noteq> None)
   \<and> (\<exists>l\<in>set example_report. match_found_unconnected l \<noteq> None)"
proof -
  have h: "\<forall>l\<in>set example_report_cut. match_found_unconnected l = None"
    by (simp add: example_report_cut_def match_found_unconnected_def group_then_def is_digit_def)
  have p: "fst (parse_drc example_misc (example_cfg 5001009) example_report) = Inr (1, 0)"
    by (simp add: example_parse)
  from parse_drc_needs_both_headers [of example_misc "example_cfg 5001009" example_report_cut]
    parse_drc_needs_both_headers [of example_misc "example_cfg 5001009" example_report 1 0] h p
  show ?thesis by (simp add: list_all_iff)
qed




section \<open>Results on the requested layers\<close>

text \<open>The pseudo-layer pattern on a name made of the prefix and digits.\<close>
lemma strip_prefix_append: "strip_prefix p (p @ s) = Some s"
  by (induction p) auto

lemma match_inner_digits:
  assumes "ds \<noteq> []" "\<forall>ch\<in>set ds. is_digit ch"
  shows "match_inner (''Inner.'' @ ds) = Some ds"
proof -
  have sp: "strip_prefix ''Inner.'' (''Inner.'' @ ds) = Some ds" by (rule strip_prefix_append)
  from assms have tw: "takeWhile is_digit ds = ds" and dw: "dropWhile is_digit ds = []"
    by simp_all
  show ?thesis unfolding match_inner_def sp by (simp add: tw dw at_end_def assms)
qed

lemma starts_Inner: "strip_prefix ''Inner'' (''Inner.'' @ ds) \<noteq> None"
  by simp

lemma check_layer_inner:
  assumes "ds \<noteq> []" "\<forall>ch\<in>set ds. is_digit ch"
  shows "check_layer K b (''Inner.'' @ ds) =
           (if 1 \<le> py_int ds \<and> py_int ds \<le> GetCopperLayerCount b - 2 then Inr (py_int ds)
            else Inl (Error ((''Inner.'' @ ds) @ '' isn't a valid layer''), SystemExit (WRONG_LAYER_NAME K)))"
proof -
  have st: "strip_prefix ''Inner'' (''Inner.'' @ ds) \<noteq> None" by simp
  show ?thesis unfolding check_layer_def Let_def match_inner_digits [OF assms]
    using st by auto
qed

lemma mark_layers_rejects:
  "layer \<in> set ls \<Longrightarrow> check_layer K b layer = Inl (m, SystemExit (WRONG_LAYER_NAME K))
   \<Longrightarrow> \<exists>m'. mark_layers K b used ls = Inl (m', SystemExit (WRONG_LAYER_NAME K))"
proof (induction ls arbitrary: used)
  case Nil
  then show ?case by simp
next
  case (Cons l ls)
  show ?case
  proof (cases "check_layer K b l")
    case (Inl e)
    then have "snd e = SystemExit (WRONG_LAYER_NAME K)"
      by (auto simp: check_layer_def Let_def split: if_splits option.splits)
    with Inl show ?thesis by (cases e) simp
  next
    case (Inr n)
    with Cons.prems have "layer \<in> set ls" by auto
    from Cons.IH [OF this Cons.prems(2)] Inr show ?thesis by simp
  qed
qed

lemma mark_layers_accepts:
  "\<forall>layer\<in>set ls. \<exists>n. check_layer K b layer = Inr n
   \<Longrightarrow> mark_layers K b used ls = Inr (used \<union> {n. \<exists>layer\<in>set ls. check_layer K b layer = Inr n})"
proof (induction ls arbitrary: used)
  case Nil
  then show ?case by simp
next
  case (Cons l ls)
  then obtain n where n: "check_layer K b l = Inr n" by auto
  from Cons.prems have "\<forall>layer\<in>set ls. \<exists>n. check_layer K b layer = Inr n" by simp
  from Cons.IH [OF this, of "insert n used"] n show ?case by auto
qed


text \<open>
  Claim C6.  For a name \<^verbatim>\<open>Inner.N\<close> with \<open>N\<close> a non-empty string of digits and a
  board of \<open>C\<close> copper layers, the loop accepts the name exactly when
  \<open>1 \<le> N \<le> C - 2\<close> and otherwise exits with the unknown-layer code; a name that
  starts with \<^verbatim>\<open>Inner\<close> but does not match the pattern exits with the same code.
  A rejected name anywhere in the requested list makes \<^verbatim>\<open>create_pcbnew_config\<close> exit
  with that code, and a list of accepted names yields their identifiers.  On a board of
  four copper layers \<^verbatim>\<open>Inner.1\<close> is accepted and \<^verbatim>\<open>Inner.3\<close> is rejected.
\<close>

theorem inner_layer_validation:
  "(ds \<noteq> [] \<and> (\<forall>ch\<in>set ds. is_digit ch) \<longrightarrow>
      ((\<exists>n. check_layer K b (''Inner.'' @ ds) = Inr n)
         \<longleftrightarrow> 1 \<le> py_int ds \<and> py_int ds \<le> GetCopperLayerCount b - 2)
      \<and> (\<not> (1 \<le> py_int ds \<and> py_int ds \<le> GetCopperLayerCount b - 2) \<longrightarrow>
           (\<exists>m. check_layer K b (''Inner.'' @ ds) = Inl (m, SystemExit (WRONG_LAYER_NAME K)))))
   \<and> (strip_prefix ''Inner'' layer \<noteq> None \<and> match_inner layer = None \<longrightarrow>
        (\<exists>m. check_layer K b layer = Inl (m, SystemExit (WRONG_LAYER_NAME K))))
   \<and> (layer \<in> set (layers c) \<and> check_layer K b layer = Inl (m, SystemExit (WRONG_LAYER_NAME K)) \<longrightarrow>
        (\<exists>m'. create_pcbnew_config K b c = Inl (m', SystemExit (WRONG_LAYER_NAME K))))
   \<and> ((\<forall>layer\<in>set (layers c). \<exists>n. check_layer K b layer = Inr n) \<longrightarrow>
        create_pcbnew_config K b c = Inr {n. \<exists>layer\<in>set (layers c). check_layer K b layer = Inr n})
   \<and> (GetCopperLayerCount b = 4 \<longrightarrow>
        check_layer K b ''Inner.1'' = Inr 1
        \<and> (\<exists>m. check_layer K b ''Inner.3'' = Inl (m, SystemExit (WRONG_LAYER_NAME K))))"
proof (intro conjI impI)
  assume a: "ds \<noteq> [] \<and> (\<forall>ch\<in>set ds. is_digit ch)"
  then have d: "ds \<noteq> []" "\<forall>ch\<in>set ds. is_digit ch" by simp_all
  show "(\<exists>n. check_layer K b (''Inner.'' @ ds) = Inr n)
         \<longleftrightarrow> 1 \<le> py_int ds \<and> py_int ds \<le> GetCopperLayerCount b - 2"
    by (simp only: check_layer_inner [OF d]) auto
  assume "\<not> (1 \<le> py_int ds \<and> py_int ds \<le> GetCopperLayerCount b - 2)"
  then show "\<exists>m. check_layer K b (''Inner.'' @ ds) = Inl (m, SystemExit (WRONG_LAYER_NAME K))"
    by (simp only: check_layer_inner [OF d]) auto
next
  assume "strip_prefix ''Inner'' layer \<noteq> None \<and> match_inner layer = None"
  then show "\<exists>m. check_layer K b layer = Inl (m, SystemExit (WRONG_LAYER_NAME K))"
    by (simp add: check_layer_def)
next
  assume "layer \<in> set (layers c) \<and> check_layer K b layer = Inl (m, SystemExit (WRONG_LAYER_NAME K))"
  then show "\<exists>m'. create_pcbnew_config K b c = Inl (m', SystemExit (WRONG_LAYER_NAME K))"
    unfolding create_pcbnew_config_def using mark_layers_rejects by blast
next
  assume "\<forall>layer\<in>set (layers c). \<exists>n. check_layer K b layer = Inr n"
  from mark_layers_accepts [OF this, of "{}"]
  show "create_pcbnew_config K b c = Inr {n. \<exists>layer\<in>set (layers c). check_layer K b layer = Inr n}"
    by (simp add: create_pcbnew_config_def)
next
  assume c4: "GetCopperLayerCount b = 4"
  have d1: "''1'' \<noteq> []" "\<forall>ch\<in>set ''1''. is_digit ch" by (simp_all add: is_digit_def)
  have d3: "''3'' \<noteq> []" "\<forall>ch\<in>set ''3''. is_digit ch" by (simp_all add: is_digit_def)
  have p: "py_int ''1'' = 1" "py_int ''3'' = 3" by (simp_all add: py_int_def digit_val_def)
  from check_layer_inner [OF d1, of K b] c4 p show "check_layer K b ''Inner.1'' = Inr 1" by simp
  from check_layer_inner [OF d3, of K b] c4 p
  show "\<exists>m. check_layer K b ''Inner.3'' = Inl (m, SystemExit (WRONG_LAYER_NAME K))" by simp
qed

text \<open>
  C6 on the example board of four copper layers: \<^verbatim>\<open>Inner.2\<close> and
  \<^verbatim>\<open>Inner.1\<close> are accepted, \<^verbatim>\<open>Inner.3\<close> and the malformed
  \<^verbatim>\<open>Inner1\<close> exit with code 6.
\<close>

theorem inner_layer_validation_witness:
  "''2'' \<noteq> [] \<and> list_all is_digit ''2''
   \<and> 1 \<le> py_int ''2'' \<and> py_int ''2'' \<le> GetCopperLayerCount example_board - 2
   \<and> (\<exists>n. check_layer example_misc example_board ''Inner.2'' = Inr n)
   \<and> GetCopperLayerCount example_board = 4
   \<and> check_layer example_misc example_board ''Inner.1'' = Inr 1
   \<and> (\<exists>m. check_layer example_misc example_board ''Inner.3'' = Inl (m, SystemExit 6))
   \<and> strip_prefix ''Inner'' ''Inner1'' \<noteq> None \<and> match_inner ''Inner1'' = None
   \<and> (\<exists>m. check_layer example_misc example_board ''Inner1'' = Inl (m, SystemExit 6))"
proof -
  have h: "''2'' \<noteq> []" "\<forall>ch\<in>set ''2''. is_digit ch" "py_int ''2'' = 2"
    "GetCopperLayerCount example_board = 4" "WRONG_LAYER_NAME example_misc = 6"
    "strip_prefix ''Inner'' ''Inner1'' \<noteq> None" "match_inner ''Inner1'' = None"
    by (simp_all add: is_digit_def py_int_def digit_val_def example_board_def example_misc_def
        match_inner_def)
  from inner_layer_validation [of "''2''" example_misc example_board "''Inner1''"] h
  show ?thesis by (simp add: list_all_iff)
qed

section \<open>Results on the automation layer\<close>

text \<open>How \<open>adds\<close> composes.\<close>

lemma adds_return: "adds P (io_return x)"
  by (simp add: adds_def io_return_def)

lemma adds_raise: "adds P (io_raise e)"
  by (simp add: adds_def io_raise_def)

lemma adds_emit: "P a \<Longrightarrow> adds P (emit a)"
  by (simp add: adds_def emit_def)

lemma adds_bind:
  assumes m: "adds P m" and f: "\<And>x. adds P (f x)"
  shows "adds P (io_bind m f)"
  unfolding adds_def
proof
  fix w
  from m obtain tr where tr: "trace (snd (m w)) = trace w @ tr" "list_all P tr"
    unfolding adds_def by blast
  show "\<exists>tr. trace (snd (io_bind m f w)) = trace w @ tr \<and> list_all P tr"
  proof (cases "m w")
    case (Pair r w')
    show ?thesis
    proof (cases r)
      case (Inl e)
      with Pair tr show ?thesis by (auto simp: io_bind_def)
    next
      case (Inr x)
      from f [of x] obtain tr' where "trace (snd (f x w')) = trace w' @ tr'" "list_all P tr'"
        unfolding adds_def by blast
      with Pair Inr tr show ?thesis by (auto simp: io_bind_def)
    qed
  qed
qed

lemma adds_discard: "adds P m \<Longrightarrow> adds P (discard m)"
  unfolding discard_def by (intro adds_bind adds_return)

lemma adds_steps: "(\<And>m. m \<in> set ms \<Longrightarrow> adds P m) \<Longrightarrow> adds P (steps ms)"
  by (induction ms) (auto intro!: adds_bind adds_return)

lemma adds_except:
  assumes m: "adds P m" and h: "adds P h"
  shows "adds P (except_RuntimeError m h)"
  unfolding adds_def
proof
  fix w
  from m obtain tr where tr: "trace (snd (m w)) = trace w @ tr" "list_all P tr"
    unfolding adds_def by blast
  from h obtain tr' where tr': "trace (snd (h (snd (m w)))) = trace (snd (m w)) @ tr'" "list_all P tr'"
    unfolding adds_def by blast
  show "\<exists>tr. trace (snd (except_RuntimeError m h w)) = trace w @ tr \<and> list_all P tr"
    using tr tr' by (cases "m w") (auto simp: except_RuntimeError_def split: sum.splits)
qed

lemma adds_with_ctx:
  assumes e: "adds P enter" and l: "adds P leave" and b: "adds P body"
  shows "adds P (with_ctx enter leave body)"
  unfolding with_ctx_def
proof (rule adds_bind [OF e])
  fix x :: unit
  show "adds P (\<lambda>w. case body w of (r, w') \<Rightarrow> (r, snd (leave w')))"
    unfolding adds_def
  proof
    fix w
    from b obtain tr where tr: "trace (snd (body w)) = trace w @ tr" "list_all P tr"
      unfolding adds_def by blast
    from l obtain tr' where tr': "trace (snd (leave (snd (body w)))) = trace (snd (body w)) @ tr'"
      "list_all P tr'" unfolding adds_def by blast
    show "\<exists>tr. trace (snd (case body w of (r, w') \<Rightarrow> (r, snd (leave w')))) = trace w @ tr \<and> list_all P tr"
      using tr tr' by (cases "body w") auto
  qed
qed

lemma adds_ask: "adds P ask"
  by (simp add: adds_def ask_def)

lemma adds_answer: "adds P (answer r)"
  by (cases r) (simp_all add: answer_def adds_return adds_raise)

lemma adds_poll: "adds P poll"
  by (simp add: adds_def poll_def)

lemma adds_cpu_percent: "adds P cpu_percent"
  by (simp add: adds_def cpu_percent_def)

lemma adds_os_rename_io: "adds P (os_rename_io src dst)"
  by (auto simp: adds_def os_rename_io_def split: sum.splits)

lemma adds_index: "adds P (index xs n)"
  by (simp add: index_def adds_return adds_raise)

lemma adds_if: "adds P m \<Longrightarrow> adds P m' \<Longrightarrow> adds P (if b then m else m')"
  by simp

lemma adds_wait_for_window:
  "P (WaitForWindow name re t s) \<Longrightarrow> adds P (wait_for_window name re t s)"
  unfolding wait_for_window_def by (intro adds_bind adds_emit adds_ask adds_answer)

lemma adds_wait_not_focused: "P (WaitNotFocused i t) \<Longrightarrow> adds P (wait_not_focused i t)"
  unfolding wait_not_focused_def by (intro adds_bind adds_emit adds_discard adds_ask adds_answer)

lemma adds_wait_for_file: "P (WaitForFile f) \<Longrightarrow> adds P (wait_for_file_created_by_process f)"
  unfolding wait_for_file_created_by_process_def
  by (intro adds_bind adds_emit adds_discard adds_ask adds_answer)

lemmas adds_prims = adds_return adds_raise adds_ask adds_answer adds_poll adds_cpu_percent
  adds_os_rename_io adds_index

lemmas adds_intros = adds_bind adds_discard adds_steps adds_except adds_with_ctx adds_if
  adds_wait_for_window adds_wait_not_focused adds_wait_for_file adds_emit

lemmas prim_defs = logger_debug_def logger_info_def logger_warning_def logger_error_def
  sleep_def xdotool_def text_replace_def wait_point_def wait_pcbnew_def

text \<open>The sleeps of each function.\<close>

lemma sleeps_within_sleeps: "list_all (sleeps_within S) tr \<Longrightarrow> set (sleeps tr) \<subseteq> S"
  by (induction tr rule: sleeps.induct) auto

lemma adds_dismiss_already_running: "adds (sleeps_within {5}) dismiss_already_running"
  unfolding dismiss_already_running_def prim_defs
  by (auto intro!: adds_intros adds_prims)

lemma adds_exit_pcbnew: "adds (sleeps_within S) (exit_pcbnew c)"
  unfolding exit_pcbnew_def prim_defs
  by (auto intro!: adds_intros adds_prims)

lemma adds_dismiss_error: "adds (sleeps_within S) dismiss_error"
  unfolding dismiss_error_def prim_defs
  by (auto intro!: adds_intros adds_prims)

lemma adds_dismiss_warning: "adds (sleeps_within S) dismiss_warning"
  unfolding dismiss_warning_def prim_defs
  by (auto intro!: adds_intros adds_prims)

lemma adds_open_print_dialog: "adds (sleeps_within S) (open_print_dialog c keys)"
  unfolding open_print_dialog_def prim_defs
  by (auto intro!: adds_intros adds_prims)

lemma adds_print_layers: "adds (sleeps_within {1}) (print_layers K c)"
  unfolding print_layers_def Let_def prim_defs
  by (auto intro!: adds_intros adds_prims adds_open_print_dialog adds_exit_pcbnew)

lemma adds_idle_loop: "adds (sleeps_within {1 / 2}) (idle_loop n finished)"
  by (induction n arbitrary: finished) (auto simp: prim_defs intro!: adds_intros adds_prims)

lemma adds_wait_for_pcbnew_idle: "adds (sleeps_within {1 / 2}) (wait_for_pcbnew_idle timeout)"
  unfolding wait_for_pcbnew_idle_def by (rule adds_idle_loop)

lemma adds_open_3d_view: "adds (sleeps_within {1 * time_out_scale c}) (open_3d_view c)"
  unfolding open_3d_view_def prim_defs
  by (auto intro!: adds_intros adds_prims split: option.splits)

lemma adds_run_drc_5_1: "adds (sleeps_within S) (run_drc_5_1 c)"
  unfolding run_drc_5_1_def prim_defs
  by (auto intro!: adds_intros adds_prims)

lemma adds_run_drc_6_0: "adds (sleeps_within {12 * time_out_scale c}) (run_drc_6_0 c)"
  unfolding run_drc_6_0_def prim_defs
  by (auto intro!: adds_intros adds_prims)

lemma adds_run_drc_python: "adds (sleeps_within S) (run_drc_python c)"
  unfolding run_drc_python_def prim_defs
  by (auto intro!: adds_intros adds_prims)

lemma addsD: "adds P m \<Longrightarrow> \<exists>tr. trace (snd (m w)) = trace w @ tr \<and> list_all P tr"
  unfolding adds_def by blast

lemma adds_sleeps:
  "adds (sleeps_within S) m \<Longrightarrow> \<exists>tr. trace (snd (m w)) = trace w @ tr \<and> (\<forall>d\<in>set (sleeps tr). d \<in> S)"
  using addsD [of "sleeps_within S" m w] sleeps_within_sleeps [of S] by blast

text \<open>
  Claim C4, as the code has it.  Whatever the world answers, every sleep of
  \<^verbatim>\<open>open_3d_view\<close> lasts 1 times the timing scale of the session and every sleep of
  \<^verbatim>\<open>run_drc_6_0\<close> lasts 12 times that scale; every sleep of
  \<^verbatim>\<open>dismiss_already_running\<close> lasts 5, every sleep of \<^verbatim>\<open>print_layers\<close> lasts 1 and
  every sleep of \<^verbatim>\<open>_wait_for_pcbnew_idle\<close> lasts one half, whatever the scale.  These are
  all the calls of \<^verbatim>\<open>sleep\<close> in the program; the durations are the real numbers that
  the floating-point values stand for.
\<close>

theorem sleeps_of_the_engine:
  "(\<exists>tr. trace (snd (open_3d_view c w)) = trace w @ tr
         \<and> (\<forall>d\<in>set (sleeps tr). d = 1 * time_out_scale c))
   \<and> (\<exists>tr. trace (snd (run_drc_6_0 c w)) = trace w @ tr
         \<and> (\<forall>d\<in>set (sleeps tr). d = 12 * time_out_scale c))
   \<and> (\<exists>tr. trace (snd (dismiss_already_running w)) = trace w @ tr
         \<and> (\<forall>d\<in>set (sleeps tr). d = 5))
   \<and> (\<exists>tr. trace (snd (print_layers K c w)) = trace w @ tr
         \<and> (\<forall>d\<in>set (sleeps tr). d = 1))
   \<and> (\<exists>tr. trace (snd (wait_for_pcbnew_idle timeout w)) = trace w @ tr
         \<and> (\<forall>d\<in>set (sleeps tr). d = 1 / 2))"
  using adds_sleeps [OF adds_open_3d_view, of c w] adds_sleeps [OF adds_run_drc_6_0, of c w]
    adds_sleeps [OF adds_dismiss_already_running, of w] adds_sleeps [OF adds_print_layers, of K c w]
    adds_sleeps [OF adds_wait_for_pcbnew_idle, of timeout w]
  by simp

lemmas io_defs = io_bind_def io_return_def io_raise_def discard_def except_RuntimeError_def
  with_ctx_def emit_def ask_def answer_def poll_def index_def wait_for_window_def
  wait_not_focused_def wait_for_file_created_by_process_def prim_defs

text \<open>
  Claim C8, as the code has it.  When the first wait for the Print dialog finds it,
  \<^verbatim>\<open>open_print_dialog\<close> has sent the keys once and returns the window.  When the first
  wait times out, the keys are sent a second time and the dialog is awaited again; the
  outcome of that second wait, window or exception, is the outcome of the call.  In no
  case are the keys sent more than twice.  This is not the only wait repeated without an
  error besides the start attempts: when the wait for the main window times out,
  \<^verbatim>\<open>wait_pcbew_start\<close> logs a debug message, waits again for 5 and returns normally
  when the window is then found.
\<close>

theorem open_print_dialog_retries_once:
  "(answers w (asked w) = Found ids \<longrightarrow>
      fst (open_print_dialog c keys w) = Inr ids
      \<and> trace (snd (open_print_dialog c keys w)) = trace w @
          [Log (Info ''Open File->Print''), WaitPoint, Xdotool (''key'' # keys),
           WaitForWindow ''Print dialog'' ''Print'' None None])
   \<and> (answers w (asked w) = TimedOut \<longrightarrow>
      fst (open_print_dialog c keys w) = fst (answer (answers w (Suc (asked w))) w)
      \<and> trace (snd (open_print_dialog c keys w)) = trace w @
          [Log (Info ''Open File->Print''), WaitPoint, Xdotool (''key'' # keys),
           WaitForWindow ''Print dialog'' ''Print'' None None,
           Log (Info ''Open File->Print (retrying)''), WaitPoint, Xdotool (''key'' # keys),
           WaitForWindow ''Print dialog'' ''Print'' None None])
   \<and> (\<exists>tr. trace (snd (open_print_dialog c keys w)) = trace w @ tr
          \<and> length (filter (\<lambda>a. a = Xdotool (''key'' # keys)) tr) \<le> 2)
   \<and> (answers w (asked w) = TimedOut \<and> answers w (Suc (asked w)) = Found ids \<longrightarrow>
      fst (wait_pcbew_start K a c w) = Inr ()
      \<and> trace (snd (wait_pcbew_start K a c w)) = trace w @
          [WaitForWindow ''Main pcbnew window'' ''Pcbnew'' (Some (wait_start a)) None,
           Log (Debug ''Time-out waiting for pcbnew, will retry''), WaitPoint,
           WaitForWindow ''Main pcbnew window'' ''Pcbnew'' (Some 5) None])"
proof (intro conjI impI)
  assume "answers w (asked w) = Found ids"
  then show "fst (open_print_dialog c keys w) = Inr ids"
    "trace (snd (open_print_dialog c keys w)) = trace w @
          [Log (Info ''Open File->Print''), WaitPoint, Xdotool (''key'' # keys),
           WaitForWindow ''Print dialog'' ''Print'' None None]"
    by (simp_all add: open_print_dialog_def io_defs)
next
  assume "answers w (asked w) = TimedOut"
  then show "fst (open_print_dialog c keys w) = fst (answer (answers w (Suc (asked w))) w)"
    "trace (snd (open_print_dialog c keys w)) = trace w @
          [Log (Info ''Open File->Print''), WaitPoint, Xdotool (''key'' # keys),
           WaitForWindow ''Print dialog'' ''Print'' None None,
           Log (Info ''Open File->Print (retrying)''), WaitPoint, Xdotool (''key'' # keys),
           WaitForWindow ''Print dialog'' ''Print'' None None]"
    by (simp_all add: open_print_dialog_def io_defs split: wait_result.splits)
next
  show "\<exists>tr. trace (snd (open_print_dialog c keys w)) = trace w @ tr
          \<and> length (filter (\<lambda>a. a = Xdotool (''key'' # keys)) tr) \<le> 2"
    by (cases "answers w (asked w)")
      (simp_all add: open_print_dialog_def io_defs split: wait_result.splits)
next
  assume "answers w (asked w) = TimedOut \<and> answers w (Suc (asked w)) = Found ids"
  then show "fst (wait_pcbew_start K a c w) = Inr ()"
    "trace (snd (wait_pcbew_start K a c w)) = trace w @
          [WaitForWindow ''Main pcbnew window'' ''Pcbnew'' (Some (wait_start a)) None,
           Log (Debug ''Time-out waiting for pcbnew, will retry''), WaitPoint,
           WaitForWindow ''Main pcbnew window'' ''Pcbnew'' (Some 5) None]"
    by (simp_all add: wait_pcbew_start_def first_wait_def io_defs)
qed

text \<open>
  Against C8 as stated: on the same world the wait for the main window is repeated after
  its time-out and the start succeeds, a repeated wait that is neither a start attempt
  nor the opening of the Print dialog nor part of the design-rule check.
\<close>

theorem start_wait_retried_after_timeout:
  "fst (wait_pcbew_start example_misc example_args (example_cfg 5001009) (example_first TimedOut)) = Inr ()
   \<and> trace (snd (wait_pcbew_start example_misc example_args (example_cfg 5001009) (example_first TimedOut))) =
       [WaitForWindow ''Main pcbnew window'' ''Pcbnew'' (Some 60) None,
        Log (Debug ''Time-out waiting for pcbnew, will retry''), WaitPoint,
        WaitForWindow ''Main pcbnew window'' ''Pcbnew'' (Some 5) None]"
  by (simp add: wait_pcbew_start_def first_wait_def io_defs example_first_def example_world_def
      example_args_def)

text \<open>
  C8 on the example world whose first wait times out: the keys are sent twice and the
  windows of the second wait are returned.
\<close>

theorem open_print_dialog_retries_once_witness:
  "answers (example_first TimedOut) (asked (example_first TimedOut)) = TimedOut
   \<and> fst (open_print_dialog (example_cfg 5001009) [''alt+f'', ''p''] (example_first TimedOut)) = Inr [''7'', ''8'']
   \<and> trace (snd (open_print_dialog (example_cfg 5001009) [''alt+f'', ''p''] (example_first TimedOut))) =
          [Log (Info ''Open File->Print''), WaitPoint, Xdotool [''key'', ''alt+f'', ''p''],
           WaitForWindow ''Print dialog'' ''Print'' None None,
           Log (Info ''Open File->Print (retrying)''), WaitPoint, Xdotool [''key'', ''alt+f'', ''p''],
           WaitForWindow ''Print dialog'' ''Print'' None None]"
proof -
  have h: "answers (example_first TimedOut) (asked (example_first TimedOut)) = TimedOut"
    "answers (example_first TimedOut) (Suc (asked (example_first TimedOut))) = Found [''7'', ''8'']"
    "trace (example_first TimedOut) = []"
    by (simp_all add: example_first_def example_world_def)
  from open_print_dialog_retries_once [of "example_first TimedOut" _ "example_cfg 5001009" "[''alt+f'', ''p'']"] h
  show ?thesis by (simp add: answer_def io_return_def)
qed

text \<open>
  Against C4 as stated: in the example session, timing scale 2, the start meets the
  confirmation dialog and sleeps for 5, not for 10.
\<close>

theorem confirmation_sleep_not_scaled:
  "time_out_scale (example_cfg 5001009) = 2
   \<and> sleeps (trace (snd (wait_pcbew_start example_misc example_args (example_cfg 5001009)
        (example_first (Other ''^Confirmation$''))))) = [5]
   \<and> (5::real) \<noteq> 5 * time_out_scale (example_cfg 5001009)"
  by (simp add: wait_pcbew_start_def first_wait_def dismiss_already_running_def io_defs
      example_first_def example_world_def example_args_def example_cfg_def
      TITLE_CONFIRMATION_def TITLE_ERROR_def TITLE_WARNING_def)

text \<open>
  C4 on the example session of the newer tool, timing scale 2: the check sleeps once,
  for 24.
\<close>

theorem sleeps_of_the_engine_witness:
  "sleeps (trace (snd (run_drc_6_0 (example_cfg 6000000) (example_first (Found [''7''])))))
     = [12 * time_out_scale (example_cfg 6000000)]
   \<and> 12 * time_out_scale (example_cfg 6000000) = 24"
proof -
  have t: "trace (example_first (Found [''7''])) = []" "time_out_scale (example_cfg 6000000) = 2"
    by (simp_all add: example_first_def example_world_def example_cfg_def)
  have s: "sleeps (trace (snd (run_drc_6_0 (example_cfg 6000000) (example_first (Found [''7''])))))
     = [12 * time_out_scale (example_cfg 6000000)]"
    by (simp add: run_drc_6_0_def io_defs example_first_def example_world_def)
  from sleeps_of_the_engine [of "example_cfg 6000000" "example_first (Found [''7''])"] t s
  show ?thesis by auto
qed

text \<open>A start at which the process has exited, and a start that meets the error dialog.\<close>

lemma first_wait_died:
  "answers w (asked w) = Died \<Longrightarrow>
   first_wait a w = (Inr (False, None),
     w\<lparr>trace := trace w @ [WaitForWindow ''Main pcbnew window'' ''Pcbnew'' (Some (wait_start a)) None,
                            Log (Debug ''Pcbnew is no longer running'')],
       asked := Suc (asked w), polled := Suc (polled w)\<rparr>)"
  by (simp add: first_wait_def io_defs)

lemma attempt_died:
  assumes "answers w (asked w) = Died" "polls w (Suc (polled w)) \<noteq> None"
  shows "attempt K a c n lvl w = (Inr (True, lvl),
     w\<lparr>trace := trace w @ [RecordedXvfb n, Log (Debug ''Starting pcbnew''),
                            Popen [pcbnew c, input_file c],
                            WaitForWindow ''Main pcbnew window'' ''Pcbnew'' (Some (wait_start a)) None,
                            Log (Debug ''Pcbnew is no longer running''), PopenExit, XvfbExit],
       asked := Suc (asked w), polled := Suc (Suc (polled w))\<rparr>)"
  using assms
  by (simp add: attempt_def wait_pcbew_start_def first_wait_died io_defs)

lemma error_dialog_exit:
  assumes "answers w (asked w) = Other TITLE_ERROR" "answers w (Suc (asked w)) = Found ids"
  shows "fst (wait_pcbew_start K a c w) = Inl (SystemExit (PCBNEW_ERROR K))"
  using assms
  by (simp add: wait_pcbew_start_def first_wait_def dismiss_error_def io_defs)

lemma attempt_error_dialog:
  assumes "answers w (asked w) = Other TITLE_ERROR" "answers w (Suc (asked w)) = Found ids"
  shows "fst (attempt K a c n lvl w) = Inl (SystemExit (PCBNEW_ERROR K))"
proof -
  have "fst (wait_pcbew_start K a c
     (w\<lparr>trace := trace w @ [RecordedXvfb n, Log (Debug ''Starting pcbnew''), Popen [pcbnew c, input_file c]]\<rparr>))
     = Inl (SystemExit (PCBNEW_ERROR K))"
    by (rule error_dialog_exit [where ids = ids]) (simp_all add: assms)
  then show ?thesis
    by (auto simp add: attempt_def with_ctx_def io_bind_def emit_def logger_debug_def
        split: prod.splits sum.splits)
qed

lemma do_all_the_work_gui:
  assumes "\<not> (command a = ''run_drc'' \<and> KICAD_VERSION_5_99 K \<le> kicad_version c)"
  shows "do_all_the_work K a c w =
     (case retry_loop K a c [0, 1, 2] (False, 0) (w\<lparr>trace := trace w @ [GetLogFiles]\<rparr>) of
        (Inl e, w') \<Rightarrow> (Inl e, w')
      | (Inr r, w') \<Rightarrow>
          if fst r then
            (Inr (PCBNEW_ERROR K),
             w'\<lparr>trace := trace w' @ [Log (Error ''Pcbnew failed to start try with --time_out_scale'')]\<rparr>)
          else (Inr (snd r), w'))"
  using assms
  by (auto simp add: do_all_the_work_def io_bind_def io_return_def emit_def logger_error_def
      simp del: retry_loop.simps split: prod.splits sum.splits)

lemma retry_loop_error_dialog:
  assumes "answers w (asked w) = Other TITLE_ERROR" "answers w (Suc (asked w)) = Found ids"
  shows "fst (retry_loop K a c (n # ns) r w) = Inl (SystemExit (PCBNEW_ERROR K))"
  using attempt_error_dialog [OF assms, of K a c n "snd r"]
  by (auto simp add: io_bind_def split: prod.splits sum.splits)

text \<open>
  Claim C3, as the code has it.  Outside the Python path of the design-rule check, let
  the process have exited at each of the three waits for its main window and let every
  poll report an exit status.  Then exactly three attempts are made, each with a new
  virtual display and a new process, and the work ends with the error level
  \<^verbatim>\<open>PCBNEW_ERROR\<close>.  The same code is the argument of the exit taken when the first
  window met is the error dialog.
\<close>

theorem start_failure_three_attempts:
  assumes gui: "\<not> (command a = ''run_drc'' \<and> KICAD_VERSION_5_99 K \<le> kicad_version c)"
      and died: "answers w (asked w) = Died" "answers w (Suc (asked w)) = Died"
                "answers w (Suc (Suc (asked w))) = Died"
      and dead: "\<forall>i. polls w i \<noteq> None"
  shows "fst (do_all_the_work K a c w) = Inr (PCBNEW_ERROR K)
       \<and> trace (snd (do_all_the_work K a c w)) = trace w @
           [GetLogFiles,
            RecordedXvfb 0, Log (Debug ''Starting pcbnew''), Popen [pcbnew c, input_file c],
            WaitForWindow ''Main pcbnew window'' ''Pcbnew'' (Some (wait_start a)) None,
            Log (Debug ''Pcbnew is no longer running''), PopenExit, XvfbExit,
            Log (Warning ''Pcbnew failed to start retrying ...''),
            RecordedXvfb 1, Log (Debug ''Starting pcbnew''), Popen [pcbnew c, input_file c],
            WaitForWindow ''Main pcbnew window'' ''Pcbnew'' (Some (wait_start a)) None,
            Log (Debug ''Pcbnew is no longer running''), PopenExit, XvfbExit,
            Log (Warning ''Pcbnew failed to start retrying ...''),
            RecordedXvfb 2, Log (Debug ''Starting pcbnew''), Popen [pcbnew c, input_file c],
            WaitForWindow ''Main pcbnew window'' ''Pcbnew'' (Some (wait_start a)) None,
            Log (Debug ''Pcbnew is no longer running''), PopenExit, XvfbExit,
            Log (Warning ''Pcbnew failed to start retrying ...''),
            Log (Error ''Pcbnew failed to start try with --time_out_scale'')]
       \<and> (answers w' (asked w') = Other TITLE_ERROR \<and> answers w' (Suc (asked w')) = Found ids \<longrightarrow>
            fst (do_all_the_work K a c w') = Inl (SystemExit (PCBNEW_ERROR K)))"
proof (intro conjI impI)
  have r: "retry_loop K a c [0, 1, 2] (False, 0) (w\<lparr>trace := trace w @ [GetLogFiles]\<rparr>) =
    (Inr (True, 0), w\<lparr>trace := trace w @
           [GetLogFiles,
            RecordedXvfb 0, Log (Debug ''Starting pcbnew''), Popen [pcbnew c, input_file c],
            WaitForWindow ''Main pcbnew window'' ''Pcbnew'' (Some (wait_start a)) None,
            Log (Debug ''Pcbnew is no longer running''), PopenExit, XvfbExit,
            Log (Warning ''Pcbnew failed to start retrying ...''),
            RecordedXvfb 1, Log (Debug ''Starting pcbnew''), Popen [pcbnew c, input_file c],
            WaitForWindow ''Main pcbnew window'' ''Pcbnew'' (Some (wait_start a)) None,
            Log (Debug ''Pcbnew is no longer running''), PopenExit, XvfbExit,
            Log (Warning ''Pcbnew failed to start retrying ...''),
            RecordedXvfb 2, Log (Debug ''Starting pcbnew''), Popen [pcbnew c, input_file c],
            WaitForWindow ''Main pcbnew window'' ''Pcbnew'' (Some (wait_start a)) None,
            Log (Debug ''Pcbnew is no longer running''), PopenExit, XvfbExit,
            Log (Warning ''Pcbnew failed to start retrying ...'')],
         asked := Suc (Suc (Suc (asked w))),
         polled := Suc (Suc (Suc (Suc (Suc (Suc (polled w))))))\<rparr>)"
    using died dead
    by (simp add: attempt_died io_bind_def io_return_def emit_def logger_warning_def)
  show "fst (do_all_the_work K a c w) = Inr (PCBNEW_ERROR K)"
    unfolding do_all_the_work_gui [OF gui] r by simp
  show "trace (snd (do_all_the_work K a c w)) = trace w @
           [GetLogFiles,
            RecordedXvfb 0, Log (Debug ''Starting pcbnew''), Popen [pcbnew c, input_file c],
            WaitForWindow ''Main pcbnew window'' ''Pcbnew'' (Some (wait_start a)) None,
            Log (Debug ''Pcbnew is no longer running''), PopenExit, XvfbExit,
            Log (Warning ''Pcbnew failed to start retrying ...''),
            RecordedXvfb 1, Log (Debug ''Starting pcbnew''), Popen [pcbnew c, input_file c],
            WaitForWindow ''Main pcbnew window'' ''Pcbnew'' (Some (wait_start a)) None,
            Log (Debug ''Pcbnew is no longer running''), PopenExit, XvfbExit,
            Log (Warning ''Pcbnew failed to start retrying ...''),
            RecordedXvfb 2, Log (Debug ''Starting pcbnew''), Popen [pcbnew c, input_file c],
            WaitForWindow ''Main pcbnew window'' ''Pcbnew'' (Some (wait_start a)) None,
            Log (Debug ''Pcbnew is no longer running''), PopenExit, XvfbExit,
            Log (Warning ''Pcbnew failed to start retrying ...''),
            Log (Error ''Pcbnew failed to start try with --time_out_scale'')]"
    unfolding do_all_the_work_gui [OF gui] r by simp
next
  assume e: "answers w' (asked w') = Other TITLE_ERROR \<and> answers w' (Suc (asked w')) = Found ids"
  have "fst (retry_loop K a c [0, 1, 2] (False, 0) (w'\<lparr>trace := trace w' @ [GetLogFiles]\<rparr>))
      = Inl (SystemExit (PCBNEW_ERROR K))"
    by (rule retry_loop_error_dialog [where ids = ids]) (simp_all add: e)
  then show "fst (do_all_the_work K a c w') = Inl (SystemExit (PCBNEW_ERROR K))"
    unfolding do_all_the_work_gui [OF gui] by (auto split: prod.splits sum.splits)
qed

text \<open>
  C3 on the example world, where the process always exits at once: three displays and
  three processes are started and the error level is 9.
\<close>

theorem start_failure_three_attempts_witness:
  "\<not> (command (example_args\<lparr>command := ''export''\<rparr>) = ''run_drc''
        \<and> KICAD_VERSION_5_99 example_misc \<le> kicad_version (example_cfg 5001009))
   \<and> answers example_world (asked example_world) = Died
   \<and> answers example_world (Suc (asked example_world)) = Died
   \<and> answers example_world (Suc (Suc (asked example_world))) = Died
   \<and> (\<forall>i. polls example_world i \<noteq> None)
   \<and> fst (do_all_the_work example_misc (example_args\<lparr>command := ''export''\<rparr>) (example_cfg 5001009)
        example_world) = Inr 9
   \<and> filter is_start (trace (snd (do_all_the_work example_misc (example_args\<lparr>command := ''export''\<rparr>)
        (example_cfg 5001009) example_world))) =
       [RecordedXvfb 0, Popen [''pcbnew'', ''b.kicad_pcb''],
        RecordedXvfb 1, Popen [''pcbnew'', ''b.kicad_pcb''],
        RecordedXvfb 2, Popen [''pcbnew'', ''b.kicad_pcb'']]"
proof -
  have h: "\<not> (command (example_args\<lparr>command := ''export''\<rparr>) = ''run_drc''
        \<and> KICAD_VERSION_5_99 example_misc \<le> kicad_version (example_cfg 5001009))"
    "answers example_world (asked example_world) = Died"
    "answers example_world (Suc (asked example_world)) = Died"
    "answers example_world (Suc (Suc (asked example_world))) = Died"
    "\<forall>i. polls example_world i \<noteq> None"
    by (simp_all add: example_world_def)
  have v: "PCBNEW_ERROR example_misc = 9" "trace example_world = []"
    "pcbnew (example_cfg 5001009) = ''pcbnew''" "input_file (example_cfg 5001009) = ''b.kicad_pcb''"
    by (simp_all add: example_misc_def example_world_def example_cfg_def)
  from start_failure_three_attempts [where K = example_misc and c = "example_cfg 5001009"
      and w = example_world and w' = example_world, OF h] h v
  show ?thesis by simp
qed

text \<open>
  Against C3 as stated: with the constants of the example, three failed starts end with
  code 9 and the error dialog ends with code 9 as well.
\<close>

theorem start_failure_code_is_error_dialog_code:
  "fst (do_all_the_work example_misc (example_args\<lparr>command := ''export''\<rparr>) (example_cfg 5001009)
        example_world) = Inr 9
   \<and> fst (do_all_the_work example_misc (example_args\<lparr>command := ''export''\<rparr>) (example_cfg 5001009)
        (example_first (Other ''^Error$''))) = Inl (SystemExit 9)"
  by (simp add: do_all_the_work_def attempt_def wait_pcbew_start_def first_wait_def
      dismiss_error_def io_defs logger_error_def logger_warning_def
      example_first_def example_world_def example_args_def example_cfg_def example_misc_def
      TITLE_ERROR_def)

lemma run_drc_python_result:
  "run_drc_python c w =
     (if save c then
        (case os_rename (files w) (input_file c) (input_file c @ ''-bak'') of
           Inl e \<Rightarrow>
             (Inl e, w\<lparr>trace := trace w @
                [Log (Debug ''Using Python interface instead of running KiCad''),
                 Log (Debug ''Re-filling zones''), ZoneFill, Log (Debug ''Running DRC''),
                 WriteDRCReport (output_file c), Log (Info ''Saving PCB'')]\<rparr>)
         | Inr fs' \<Rightarrow>
             (Inr (), w\<lparr>trace := trace w @
                [Log (Debug ''Using Python interface instead of running KiCad''),
                 Log (Debug ''Re-filling zones''), ZoneFill, Log (Debug ''Running DRC''),
                 WriteDRCReport (output_file c), Log (Info ''Saving PCB''),
                 BoardSave (input_file c)], files := fs'\<rparr>))
      else
        (Inr (), w\<lparr>trace := trace w @
           [Log (Debug ''Using Python interface instead of running KiCad''),
            Log (Debug ''Re-filling zones''), ZoneFill, Log (Debug ''Running DRC''),
            WriteDRCReport (output_file c)]\<rparr>))"
  by (simp add: run_drc_python_def io_defs os_rename_io_def split: sum.splits)

lemma no_start_in_logs: "filter is_start (map Log lg) = []"
  by (induction lg) simp_all

text \<open>
  Claim C10.  For the command \<^verbatim>\<open>run_drc\<close> and a tool version at or above the 5.99
  threshold, the work begins with the zone refill and the writing of the report through
  the Python interface, and nothing it does afterwards starts a virtual display or a
  process.  Without \<^verbatim>\<open>--save\<close> the report is then evaluated; with it, and the input
  file renamed to its back-up name, the board is saved first.
\<close>

theorem run_drc_by_python_interface:
  assumes "command a = ''run_drc''" and "KICAD_VERSION_5_99 K \<le> kicad_version c"
  shows "(\<exists>tr. trace (snd (do_all_the_work K a c w)) = trace w @
            [Log (Debug ''Using Python interface instead of running KiCad''),
             Log (Debug ''Re-filling zones''), ZoneFill, Log (Debug ''Running DRC''),
             WriteDRCReport (output_file c)] @ tr
          \<and> filter is_start tr = [])
       \<and> (\<not> save c \<longrightarrow>
            do_all_the_work K a c w = process_drc_out_io K a c
              (w\<lparr>trace := trace w @
                 [Log (Debug ''Using Python interface instead of running KiCad''),
                  Log (Debug ''Re-filling zones''), ZoneFill, Log (Debug ''Running DRC''),
                  WriteDRCReport (output_file c)]\<rparr>))
       \<and> (save c \<and> os_rename (files w) (input_file c) (input_file c @ ''-bak'') = Inr fs' \<longrightarrow>
            do_all_the_work K a c w = process_drc_out_io K a c
              (w\<lparr>trace := trace w @
                 [Log (Debug ''Using Python interface instead of running KiCad''),
                  Log (Debug ''Re-filling zones''), ZoneFill, Log (Debug ''Running DRC''),
                  WriteDRCReport (output_file c), Log (Info ''Saving PCB''),
                  BoardSave (input_file c)], files := fs'\<rparr>))"
proof -
  have d: "do_all_the_work K a c w =
      (case run_drc_python c w of (Inl e, w') \<Rightarrow> (Inl e, w')
       | (Inr x, w') \<Rightarrow> process_drc_out_io K a c w')"
    using assms by (simp add: do_all_the_work_def io_bind_def)
  show ?thesis
    unfolding d run_drc_python_result
    by (auto simp add: process_drc_out_io_def no_start_in_logs split: sum.splits prod.splits)
qed

text \<open>
  C10 on the example session of the newer tool with the example report: five actions of
  the Python interface, then the verdict \<open>-1\<close>; no display, no process.
\<close>

theorem run_drc_by_python_interface_witness:
  "command example_args = ''run_drc''
   \<and> KICAD_VERSION_5_99 example_misc \<le> kicad_version (example_cfg 6000000)
   \<and> \<not> save (example_cfg 6000000)
   \<and> do_all_the_work example_misc example_args (example_cfg 6000000)
        (example_world\<lparr>report := example_report\<rparr>) =
      (Inr (- 1), example_world\<lparr>report := example_report, trace :=
         [Log (Debug ''Using Python interface instead of running KiCad''),
          Log (Debug ''Re-filling zones''), ZoneFill, Log (Debug ''Running DRC''),
          WriteDRCReport ''out/drc_result.rpt'',
          Log (Debug ''Found DRC errors and unconnected pads''),
          Log (Error ''Found DRC errors and unconnected pads''),
          Log (Info ''list_errors''), Log (Info ''list_warnings'')]\<rparr>)"
proof -
  have h: "command example_args = ''run_drc''"
    "KICAD_VERSION_5_99 example_misc \<le> kicad_version (example_cfg 6000000)"
    "\<not> save (example_cfg 6000000)"
    by (simp_all add: example_args_def example_misc_def example_cfg_def)
  have p: "parse_drc example_misc (example_cfg 6000000) example_report =
     (Inr (1, 0), example_cfg 6000000)"
    by (simp add: parse_drc_def example_report_def example_cfg_def example_misc_def drc_line_def
      match_found_errors_def match_found_unconnected_def match_end_of_report_def err_regex_def
      group_then_def is_digit_def is_space_def at_end_def dot_star_def py_int_def digit_val_def
      format_record_def merge_line_def)
  have o: "output_file (example_cfg 6000000) = ''out/drc_result.rpt''"
    "\<not> ignore_unconnected example_args"
    by (simp_all add: example_cfg_def example_args_def)
  from run_drc_by_python_interface [OF h(1,2), of "example_world\<lparr>report := example_report\<rparr>"] h
  show ?thesis
    by (simp add: process_drc_out_io_def process_drc_out_def p o example_world_def)
qed

end
